theory Spec2Isabelle
  imports Main "HOL-Library.Sublist" "HOL-Library.AList"
begin

section \<open>The explain function: content generators\<close>

text \<open>
  The development embeds \<^verbatim>\<open>supabase/functions/explain/index.ts\<close>: the heuristic
  generator \<^verbatim>\<open>generateFallbackResponse\<close>, the model-backed generator
  \<^verbatim>\<open>callLLM\<close> and the request handler passed to \<^verbatim>\<open>serve\<close>.
  Strings are \<^typ>\<open>string\<close>; a character outside ASCII is a sequence of bytes
  above 127, none of which is a word character or has an ASCII case variant, which is how
  the regular expressions of the source (no \<^verbatim>\<open>u\<close> flag) treat every code unit
  above 127 as well.
\<close>

subsection \<open>JavaScript values\<close>

text \<open>
  TypeScript types are erased at run time and \<^verbatim>\<open>JSON.parse\<close> returns
  \<^verbatim>\<open>any\<close>, so the values that flow through the handler are dynamically typed.
  Objects keep their members in order. A number is carried as an integer, as the numbers
  of the source are; nothing below computes with one.
\<close>

datatype js =
    Undefined
  | Null
  | Bool bool
  | Num int
  | Str string
  | Arr "js list"
  | Obj "(string \<times> js) list"

text \<open>What a handler throws or catches: the value's \<^verbatim>\<open>requestBody\<close> member is
  all the top-level handler reads from it.\<close>

record request_body =
  rb_code :: "string option"
  rb_language :: "string option"
  rb_reading_level :: "string option"

datatype thrown =
    TypeError
  | SyntaxError
  | HttpError nat
  | Foreign "request_body option"

text \<open>Member access \<^verbatim>\<open>v.k\<close>: a TypeError on \<^verbatim>\<open>undefined\<close> and
  \<^verbatim>\<open>null\<close>, \<^verbatim>\<open>undefined\<close> for a member that is not there. The
  names read by the source are no built-in member of a string, number, boolean or array.\<close>

fun get_prop :: "js \<Rightarrow> string \<Rightarrow> thrown + js" where
  "get_prop Undefined k = Inl TypeError"
| "get_prop Null k = Inl TypeError"
| "get_prop (Obj kvs) k = Inr (case map_of kvs k of Some v \<Rightarrow> v | None \<Rightarrow> Undefined)"
| "get_prop v k = Inr Undefined"

text \<open>Element access \<^verbatim>\<open>v[0]\<close>.\<close>

fun get_index0 :: "js \<Rightarrow> thrown + js" where
  "get_index0 Undefined = Inl TypeError"
| "get_index0 Null = Inl TypeError"
| "get_index0 (Arr xs) = Inr (case xs of [] \<Rightarrow> Undefined | x # _ \<Rightarrow> x)"
| "get_index0 (Str s) = Inr (case s of [] \<Rightarrow> Undefined | c # _ \<Rightarrow> Str [c])"
| "get_index0 (Obj kvs) = Inr (case map_of kvs ''0'' of Some v \<Rightarrow> v | None \<Rightarrow> Undefined)"
| "get_index0 v = Inr Undefined"

subsection \<open>The regular expressions of the heuristic generator\<close>

definition is_word_char :: "char \<Rightarrow> bool" where
  "is_word_char c =
     (let n = (of_char c :: nat)
      in (48 \<le> n \<and> n \<le> 57) \<or> (65 \<le> n \<and> n \<le> 90) \<or> n = 95 \<or> (97 \<le> n \<and> n \<le> 122))"

text \<open>Case-insensitive matching compares the upper-case forms of two code units.\<close>

definition canonicalize :: "char \<Rightarrow> char" where
  "canonicalize c =
     (let n = (of_char c :: nat) in if 97 \<le> n \<and> n \<le> 122 then char_of (n - 32) else c)"

fun ci_prefix :: "string \<Rightarrow> string \<Rightarrow> bool" where
  "ci_prefix [] s = True"
| "ci_prefix (k # ks) [] = False"
| "ci_prefix (k # ks) (c # cs) = (canonicalize k = canonicalize c \<and> ci_prefix ks cs)"

text \<open>\<^verbatim>\<open>\b\<close> between the character before a position (if any) and the one after.\<close>

definition is_word_opt :: "char option \<Rightarrow> bool" where
  "is_word_opt a = (case a of None \<Rightarrow> False | Some c \<Rightarrow> is_word_char c)"

definition word_boundary :: "char option \<Rightarrow> char option \<Rightarrow> bool" where
  "word_boundary a b = (is_word_opt a \<noteq> is_word_opt b)"

definition head_opt :: "string \<Rightarrow> char option" where
  "head_opt s = (case s of [] \<Rightarrow> None | c # _ \<Rightarrow> Some c)"

text \<open>\<^verbatim>\<open>\b(kw)\b\<close> matched at one position: \<open>prev\<close> is the character before it,
  \<open>s\<close> the text from it on.\<close>

definition match_here :: "char option \<Rightarrow> string \<Rightarrow> string \<Rightarrow> bool" where
  "match_here prev s kw =
     (word_boundary prev (head_opt s) \<and> ci_prefix kw s \<and>
      word_boundary (if kw = [] then prev else Some (last (take (length kw) s)))
        (head_opt (drop (length kw) s)))"

text \<open>\<^verbatim>\<open>/\b(k1|k2|...)\b/i.test(s)\<close>: every start position, every alternative.\<close>

fun test_from :: "string list \<Rightarrow> char option \<Rightarrow> string \<Rightarrow> bool" where
  "test_from kws prev [] = list_ex (match_here prev []) kws"
| "test_from kws prev (c # cs) =
     (list_ex (match_here prev (c # cs)) kws \<or> test_from kws (Some c) cs)"

definition regex_test :: "string list \<Rightarrow> string \<Rightarrow> bool" where
  "regex_test kws s = test_from kws None s"

definition hasLoops :: "string \<Rightarrow> bool" where
  "hasLoops code = regex_test [''for'', ''while'', ''do''] code"

definition hasConditionals :: "string \<Rightarrow> bool" where
  "hasConditionals code = regex_test [''if'', ''else'', ''switch'', ''case''] code"

definition hasFunctions :: "string \<Rightarrow> bool" where
  "hasFunctions code = regex_test [''function'', ''def'', ''func''] code"

subsection \<open>The content bundle\<close>

record trace_step =
  line :: nat
  vars :: "(string \<times> js) list"

record trace =
  input :: string
  steps :: "trace_step list"

record quiz =
  question :: string
  choices :: "string list"
  answer :: string
  hint :: string
  difficulty :: string

record LLMResponse =
  explanation :: string
  mermaid :: string
  trace :: trace
  quizzes :: "quiz list"

subsection \<open>generateFallbackResponse\<close>

definition fallback_explanation :: "string \<Rightarrow> string \<Rightarrow> string \<Rightarrow> string" where
  "fallback_explanation code language readingLevel =
     (if readingLevel = ''12'' then
        (''This '' @ language @ '' code is like following a recipe! It takes some information (ingredients) and follows step-by-step instructions to create a result. The computer reads each line and does what it says, just like you would follow cooking instructions.'')
        @ (if hasLoops code then '' Some steps say 'repeat this part until something happens' - that's like stirring until the mixture is smooth.'' else [])
        @ (if hasConditionals code then '' Other steps say 'if this, then do that' - like checking if the cake is done before taking it out.'' else [])
      else if readingLevel = ''15'' then
        (''This '' @ language @ '' code demonstrates fundamental programming concepts. It processes input data through a series of logical operations to produce a desired output.'')
        @ (if hasLoops code then '' It uses loops to repeat certain operations efficiently.'' else [])
        @ (if hasConditionals code then '' Conditional statements help the program make decisions based on different scenarios.'' else [])
        @ (if hasFunctions code then '' Functions help organize the code into reusable blocks.'' else [])
      else
        (''This '' @ language @ '' code implements a computational algorithm using standard programming constructs. The implementation follows best practices for readability and maintainability.'')
        @ (if hasLoops code then '' Iterative constructs handle repetitive operations with appropriate termination conditions.'' else [])
        @ (if hasConditionals code then '' Conditional logic enables branching behavior based on runtime evaluation.'' else [])
        @ (if hasFunctions code then '' Modular function design promotes code reusability and separation of concerns.'' else []))"

definition fallback_mermaid :: "string \<Rightarrow> string" where
  "fallback_mermaid code =
     (if hasLoops code \<and> hasConditionals code then
        ''graph TD\<newline>    A[Start] --> B[Initialize Variables]\<newline>    B --> C[Loop Condition]\<newline>    C -->|True| D{Check Condition}\<newline>    D -->|Met| E[Execute Action A]\<newline>    D -->|Not Met| F[Execute Action B]\<newline>    E --> G[Update Variables]\<newline>    F --> G\<newline>    G --> C\<newline>    C -->|False| H[End]''
      else if hasLoops code then
        ''graph TD\<newline>    A[Start] --> B[Initialize Counter]\<newline>    B --> C[Check Loop Condition]\<newline>    C -->|True| D[Execute Loop Body]\<newline>    D --> E[Update Counter]\<newline>    E --> C\<newline>    C -->|False| F[End]''
      else if hasConditionals code then
        ''graph TD\<newline>    A[Start] --> B[Check Condition]\<newline>    B -->|True| C[Execute Branch A]\<newline>    B -->|False| D[Execute Branch B]\<newline>    C --> E[End]\<newline>    D --> E''
      else
        ''graph TD\<newline>    A[Start] --> B[Process Input]\<newline>    B --> C[Apply Logic]\<newline>    C --> D[Generate Output]\<newline>    D --> E[End]'')"

definition fallback_quizzes :: "string \<Rightarrow> quiz list" where
  "fallback_quizzes code =
     [ \<lparr> question = ''What is the main purpose of this code?'',
         choices = [''Process data according to specific logic'', ''Create a user interface'',
                    ''Manage database connections'', ''Handle file operations''],
         answer = ''Process data according to specific logic'',
         hint = ''Look at the overall structure and operations performed'',
         difficulty = ''easy'' \<rparr>,
       \<lparr> question = ''Which programming concept is most evident in this code?'',
         choices =
           (if hasLoops code then
              [''Loops for repetition'', ''Database operations'', ''Network requests'',
               ''Graphics rendering'']
            else if hasConditionals code then
              [''Conditional logic'', ''File handling'', ''Memory management'',
               ''Thread synchronization'']
            else
              [''Sequential processing'', ''Parallel computing'', ''Distributed systems'',
               ''Machine learning'']),
         answer =
           (if hasLoops code then ''Loops for repetition''
            else if hasConditionals code then ''Conditional logic''
            else ''Sequential processing''),
         hint = ''Think about the fundamental programming constructs used'',
         difficulty = ''medium'' \<rparr>,
       \<lparr> question = ''What should you consider before running this code?'',
         choices = [''Input requirements and expected format'', ''Internet connection speed'',
                    ''Screen resolution'', ''Audio settings''],
         answer = ''Input requirements and expected format'',
         hint = ''Consider what the code needs to work properly'',
         difficulty = ''easy'' \<rparr> ]"

definition generateFallbackResponse :: "string \<Rightarrow> string \<Rightarrow> string \<Rightarrow> LLMResponse" where
  "generateFallbackResponse code language readingLevel =
     \<lparr> explanation = fallback_explanation code language readingLevel,
       mermaid = fallback_mermaid code,
       trace = \<lparr> input = ''sample_input'',
                 steps = [ \<lparr> line = 1, vars = [(''input'', Str ''sample_input'')] \<rparr>,
                           \<lparr> line = 2, vars = [(''input'', Str ''sample_input''),
                                                (''processed'', Bool True)] \<rparr> ] \<rparr>,
       quizzes = fallback_quizzes code \<rparr>"

subsection \<open>callLLM\<close>

definition mock_response :: "string \<Rightarrow> LLMResponse" where
  "mock_response language =
     \<lparr> explanation = ''This '' @ language @ '' code demonstrates key programming concepts. It uses variables to store data and control structures to manage program flow. The logic is structured to handle the main use case efficiently.'',
       mermaid = ''graph TD\<newline>    A[Start] --> B[Process Input]\<newline>    B --> C[Apply Logic]\<newline>    C --> D[Generate Output]\<newline>    D --> E[End]'',
       trace = \<lparr> input = ''sample input'',
                 steps = [ \<lparr> line = 1, vars = [(''x'', Num 1), (''y'', Num 2)] \<rparr>,
                           \<lparr> line = 2, vars = [(''x'', Num 1), (''y'', Num 2),
                                                (''result'', Num 3)] \<rparr> ] \<rparr>,
       quizzes =
         [ \<lparr> question = ''What is the main purpose of this code?'',
             choices = [''Process data'', ''Create UI'', ''Manage files'', ''Handle network''],
             answer = ''Process data'',
             hint = ''Look at the main operations'',
             difficulty = ''easy'' \<rparr>,
           \<lparr> question = ''Which concept is most important here?'',
             choices = [''Variables'', ''Networks'', ''Graphics'', ''Audio''],
             answer = ''Variables'',
             hint = ''Think about data storage'',
             difficulty = ''medium'' \<rparr>,
           \<lparr> question = ''What would this code output with input 'test'?'',
             choices = [''test'', ''TEST'', ''error'', ''null''],
             answer = ''test'',
             hint = ''Trace through the logic'',
             difficulty = ''hard'' \<rparr> ] \<rparr>"

text \<open>An object literal of type \<^verbatim>\<open>LLMResponse\<close> as the run-time value it is.\<close>

definition encode_step :: "trace_step \<Rightarrow> js" where
  "encode_step s = Obj [(''line'', Num (int (line s))), (''vars'', Obj (vars s))]"

definition encode_trace :: "trace \<Rightarrow> js" where
  "encode_trace t = Obj [(''input'', Str (input t)), (''steps'', Arr (map encode_step (steps t)))]"

definition encode_quiz :: "quiz \<Rightarrow> js" where
  "encode_quiz q =
     Obj [(''question'', Str (question q)), (''choices'', Arr (map Str (choices q))),
          (''answer'', Str (answer q)), (''hint'', Str (hint q)),
          (''difficulty'', Str (difficulty q))]"

definition encode_bundle :: "LLMResponse \<Rightarrow> js" where
  "encode_bundle b =
     Obj [(''explanation'', Str (explanation b)), (''mermaid'', Str (mermaid b)),
          (''trace'', encode_trace (trace b)), (''quizzes'', Arr (map encode_quiz (quizzes b)))]"

text \<open>
  What the collaborators of the handler do during one run: the environment variables,
  the identity service, the one HTTP exchange with the model service, the built-in
  \<^verbatim>\<open>JSON.parse\<close> (\<open>None\<close> when it throws), and for each of the four store
  requests of the handler whether it goes through, reports an error or throws. The model
  service's reply is taken as given, whatever the prompt was.
\<close>

datatype fetch_outcome =
    FetchRejects
  | Responds bool nat "js option"

datatype auth_outcome =
    AuthThrows thrown
  | AuthError
  | AuthNoUser
  | AuthUser string

datatype fault = Succeeds | Reports | Throws thrown

record world =
  SUPABASE_URL :: "string option"
  SUPABASE_SERVICE_ROLE_KEY :: "string option"
  OPENAI_API_KEY :: "string option"
  getUser :: "string \<Rightarrow> auth_outcome"
  fetch_reply :: fetch_outcome
  JSON_parse :: "js \<Rightarrow> js option"
  snippet_upsert :: fault
  result_write :: fault
  quiz_delete :: fault
  quiz_insert :: fault
  new_snippet_id :: string
  new_quiz_id :: "nat \<Rightarrow> string"

definition truthy_str :: "string option \<Rightarrow> bool" where
  "truthy_str s = (case s of None \<Rightarrow> False | Some t \<Rightarrow> t \<noteq> [])"

definition bindE :: "thrown + 'a \<Rightarrow> ('a \<Rightarrow> thrown + 'b) \<Rightarrow> thrown + 'b" where
  "bindE m f = (case m of Inl e \<Rightarrow> Inl e | Inr v \<Rightarrow> f v)"

text \<open>\<^verbatim>\<open>data.choices[0].message.content\<close>\<close>

definition llm_content :: "js \<Rightarrow> thrown + js" where
  "llm_content data =
     bindE (get_prop data ''choices'') (\<lambda>cs.
     bindE (get_index0 cs) (\<lambda>c.
     bindE (get_prop c ''message'') (\<lambda>m.
     get_prop m ''content'')))"

text \<open>The \<^verbatim>\<open>try\<close> block of \<^verbatim>\<open>callLLM\<close>: \<open>Inl\<close> is what it throws.\<close>

definition callLLM_try :: "world \<Rightarrow> thrown + js" where
  "callLLM_try w =
     (case fetch_reply w of
        FetchRejects \<Rightarrow> Inl TypeError
      | Responds ok st body \<Rightarrow>
          if \<not> ok then Inl (HttpError st)
          else (case body of
                  None \<Rightarrow> Inl SyntaxError
                | Some data \<Rightarrow>
                    bindE (llm_content data) (\<lambda>content.
                      case JSON_parse w content of
                        None \<Rightarrow> Inl SyntaxError
                      | Some v \<Rightarrow> Inr v)))"

definition callLLM :: "world \<Rightarrow> string \<Rightarrow> string \<Rightarrow> string \<Rightarrow> js" where
  "callLLM w code language readingLevel =
     (if \<not> truthy_str (OPENAI_API_KEY w) then encode_bundle (mock_response language)
      else (case callLLM_try w of
              Inr v \<Rightarrow> v
            | Inl e \<Rightarrow> encode_bundle (generateFallbackResponse code language readingLevel)))"

section \<open>The request handler\<close>

subsection \<open>The store\<close>

text \<open>
  A row is an object, column name to value; a table is a list of rows. \<open>calls\<close> is
  the history of the requests sent to the store, whatever their outcome. A request that
  reports an error or throws leaves the tables as they were. The service-role client is
  not subject to row-level security: a request reaches every row its filters select.
\<close>

type_synonym row = "(string \<times> js) list"

datatype call = SnippetUpdate | SnippetInsert | ResultWrite | QuizDelete | QuizInsert

record store =
  snippets_tbl :: "row list"
  quizzes_tbl :: "row list"
  calls :: "call list"

datatype 'a reply = Threw thrown | Failed | Returned 'a

definition log_call :: "call \<Rightarrow> store \<Rightarrow> store" where
  "log_call c st = st\<lparr>calls := calls st @ [c]\<rparr>"

text \<open>\<^verbatim>\<open>.eq(column, value)\<close> filters, all of which a selected row satisfies.\<close>

definition matches :: "(string \<times> js) list \<Rightarrow> row \<Rightarrow> bool" where
  "matches filters r = list_all (\<lambda>(k, v). map_of r k = Some v) filters"

text \<open>The payload of a request is serialised with \<^verbatim>\<open>JSON.stringify\<close>, which leaves
  out the members whose value is \<^verbatim>\<open>undefined\<close>.\<close>

definition set_col :: "string \<times> js \<Rightarrow> row \<Rightarrow> row" where
  "set_col kv r = (if snd kv = Undefined then r else AList.update (fst kv) (snd kv) r)"

definition apply_patch :: "(string \<times> js) list \<Rightarrow> row \<Rightarrow> row" where
  "apply_patch patch r = fold set_col patch r"

definition update_rows :: "(string \<times> js) list \<Rightarrow> (string \<times> js) list \<Rightarrow> row list \<Rightarrow> row list" where
  "update_rows patch filters rows =
     map (\<lambda>r. if matches filters r then apply_patch patch r else r) rows"

text \<open>\<^verbatim>\<open>from('snippets').update(patch).eq(..)\<close>\<close>

definition snippets_update ::
  "world \<Rightarrow> (string \<times> js) list \<Rightarrow> (string \<times> js) list \<Rightarrow> store \<Rightarrow> unit reply \<times> store" where
  "snippets_update w patch filters st =
     (let st1 = log_call SnippetUpdate st
      in case snippet_upsert w of
           Throws e \<Rightarrow> (Threw e, st1)
         | Reports \<Rightarrow> (Failed, st1)
         | Succeeds \<Rightarrow>
             (Returned (), st1\<lparr>snippets_tbl := update_rows patch filters (snippets_tbl st1)\<rparr>))"

text \<open>\<^verbatim>\<open>from('snippets').insert(values).select().single()\<close>: the store assigns the
  identifier; other column defaults of the table are not modelled.\<close>

definition snippets_insert :: "world \<Rightarrow> (string \<times> js) list \<Rightarrow> store \<Rightarrow> row reply \<times> store" where
  "snippets_insert w vals st =
     (let st1 = log_call SnippetInsert st
      in case snippet_upsert w of
           Throws e \<Rightarrow> (Threw e, st1)
         | Reports \<Rightarrow> (Failed, st1)
         | Succeeds \<Rightarrow>
             (let r = (''id'', Str (new_snippet_id w)) # apply_patch vals []
              in (Returned r, st1\<lparr>snippets_tbl := snippets_tbl st1 @ [r]\<rparr>)))"

text \<open>\<^verbatim>\<open>from('snippets').update(patch).eq(..).select().single()\<close>: an error unless
  exactly one row is selected.\<close>

definition snippets_update_single ::
  "world \<Rightarrow> (string \<times> js) list \<Rightarrow> (string \<times> js) list \<Rightarrow> store \<Rightarrow> row reply \<times> store" where
  "snippets_update_single w patch filters st =
     (let st1 = log_call ResultWrite st
      in case result_write w of
           Throws e \<Rightarrow> (Threw e, st1)
         | Reports \<Rightarrow> (Failed, st1)
         | Succeeds \<Rightarrow>
             (case filter (matches filters) (snippets_tbl st1) of
                [r] \<Rightarrow> (Returned (apply_patch patch r),
                         st1\<lparr>snippets_tbl := update_rows patch filters (snippets_tbl st1)\<rparr>)
              | _ \<Rightarrow> (Failed, st1)))"

text \<open>\<^verbatim>\<open>from('quizzes').delete().eq(..)\<close>\<close>

definition quizzes_delete :: "world \<Rightarrow> (string \<times> js) list \<Rightarrow> store \<Rightarrow> unit reply \<times> store" where
  "quizzes_delete w filters st =
     (let st1 = log_call QuizDelete st
      in case quiz_delete w of
           Throws e \<Rightarrow> (Threw e, st1)
         | Reports \<Rightarrow> (Failed, st1)
         | Succeeds \<Rightarrow>
             (Returned (),
              st1\<lparr>quizzes_tbl := filter (\<lambda>r. \<not> matches filters r) (quizzes_tbl st1)\<rparr>))"

text \<open>\<^verbatim>\<open>from('quizzes').insert(rows).select()\<close>\<close>

definition stored_quiz :: "world \<Rightarrow> nat \<times> js \<Rightarrow> row" where
  "stored_quiz w iv =
     (''id'', Str (new_quiz_id w (fst iv))) #
       (case snd iv of Obj kvs \<Rightarrow> apply_patch kvs [] | _ \<Rightarrow> [])"

definition quizzes_insert :: "world \<Rightarrow> js list \<Rightarrow> store \<Rightarrow> row list reply \<times> store" where
  "quizzes_insert w vals st =
     (let st1 = log_call QuizInsert st
      in case quiz_insert w of
           Throws e \<Rightarrow> (Threw e, st1)
         | Reports \<Rightarrow> (Failed, st1)
         | Succeeds \<Rightarrow>
             (let rs = map (stored_quiz w) (enumerate 0 vals)
              in (Returned rs, st1\<lparr>quizzes_tbl := quizzes_tbl st1 @ rs\<rparr>)))"

subsection \<open>Requests and responses\<close>

record ExplainRequest =
  req_snippet_id :: "string option"
  req_title :: "string option"
  req_language :: "string option"
  req_code :: "string option"
  req_reading_level :: "string option"

text \<open>\<open>json_body\<close> is what \<^verbatim>\<open>req.json()\<close> resolves to, with the members the
  handler reads typed as \<^verbatim>\<open>ExplainRequest\<close> declares them and \<open>None\<close> for a member
  that is absent; it is \<open>None\<close> when \<^verbatim>\<open>req.json()\<close> rejects or resolves to
  \<^verbatim>\<open>null\<close>, where the destructuring throws. \<open>resp_body\<close> is the value handed to
  \<^verbatim>\<open>JSON.stringify\<close>, which leaves out the members whose value is
  \<^verbatim>\<open>undefined\<close>; it is \<open>None\<close> for a response without a body. Headers are not
  modelled.\<close>

record request =
  http_method :: string
  authorization :: "string option"
  json_body :: "ExplainRequest option"

record response =
  resp_status :: nat
  resp_body :: "js option"

definition json_response :: "nat \<Rightarrow> js \<Rightarrow> response" where
  "json_response st b = \<lparr> resp_status = st, resp_body = Some b \<rparr>"

definition error_response :: "nat \<Rightarrow> string \<Rightarrow> response" where
  "error_response st msg = json_response st (Obj [(''error'', Str msg)])"

text \<open>The decimal numeral of an array index, as a template literal prints it.\<close>

definition digit_char :: "nat \<Rightarrow> char" where
  "digit_char d = ''0123456789'' ! d"

fun string_of_nat :: "nat \<Rightarrow> string" where
  "string_of_nat n =
     (if n < 10 then [digit_char n] else string_of_nat (n div 10) @ [digit_char (n mod 10)])"

text \<open>\<^verbatim>\<open>s.replace(pat, rep)\<close> with a string pattern: the first occurrence only.\<close>

fun replace_first :: "string \<Rightarrow> string \<Rightarrow> string \<Rightarrow> string" where
  "replace_first pat rep [] = (if pat = [] then rep else [])"
| "replace_first pat rep (c # cs) =
     (if prefix pat (c # cs) then rep @ drop (length pat) (c # cs)
      else c # replace_first pat rep cs)"

definition truthy :: "js \<Rightarrow> bool" where
  "truthy v = (v \<noteq> Undefined \<and> v \<noteq> Null \<and> v \<noteq> Bool False \<and> v \<noteq> Num 0 \<and> v \<noteq> Str [])"

definition js_opt :: "string option \<Rightarrow> js" where
  "js_opt s = (case s of None \<Rightarrow> Undefined | Some t \<Rightarrow> Str t)"

definition str_or :: "string option \<Rightarrow> string \<Rightarrow> string" where
  "str_or s d = (case s of None \<Rightarrow> d | Some t \<Rightarrow> if t = [] then d else t)"

text \<open>\<^verbatim>\<open>xs.map((x, index) => ..)\<close> with a callback that may throw.\<close>

fun map_index :: "(js \<Rightarrow> nat \<Rightarrow> thrown + js) \<Rightarrow> nat \<Rightarrow> js list \<Rightarrow> thrown + js list" where
  "map_index f i [] = Inr []"
| "map_index f i (x # xs) =
     bindE (f x i) (\<lambda>y. bindE (map_index f (Suc i) xs) (\<lambda>ys. Inr (y # ys)))"

definition array_map :: "js \<Rightarrow> (js \<Rightarrow> nat \<Rightarrow> thrown + js) \<Rightarrow> thrown + js list" where
  "array_map v f = (case v of Arr xs \<Rightarrow> map_index f 0 xs | _ \<Rightarrow> Inl TypeError)"

declare string_of_nat.simps [simp del]

subsection \<open>The handler passed to serve\<close>

text \<open>The quiz objects of the responses: the five members of the bundle's quiz behind an
  identifier made of a prefix and the index, and the snippet's identifier.\<close>

definition quiz_members :: "js \<Rightarrow> thrown + (string \<times> js) list" where
  "quiz_members q =
     bindE (get_prop q ''question'') (\<lambda>qu.
     bindE (get_prop q ''choices'') (\<lambda>ch.
     bindE (get_prop q ''answer'') (\<lambda>an.
     bindE (get_prop q ''hint'') (\<lambda>hi.
     bindE (get_prop q ''difficulty'') (\<lambda>di.
       Inr [(''question'', qu), (''choices'', ch), (''answer'', an), (''hint'', hi),
            (''difficulty'', di)])))))"

definition quiz_with_id :: "string \<Rightarrow> js \<Rightarrow> js \<Rightarrow> nat \<Rightarrow> thrown + js" where
  "quiz_with_id pre sid q i =
     bindE (quiz_members q) (\<lambda>ms.
       Inr (Obj ((''id'', Str (pre @ string_of_nat i)) # (''snippet_id'', sid) # ms)))"

definition temp_quizzes :: "js \<Rightarrow> js \<Rightarrow> thrown + js" where
  "temp_quizzes sid llm =
     bindE (get_prop llm ''quizzes'') (\<lambda>qs.
     bindE (array_map qs (quiz_with_id ''temp_'' sid)) (\<lambda>ys. Inr (Arr ys)))"

definition quiz_insert_row :: "js \<Rightarrow> js \<Rightarrow> nat \<Rightarrow> thrown + js" where
  "quiz_insert_row sid q i =
     bindE (quiz_members q) (\<lambda>ms. Inr (Obj ((''snippet_id'', sid) # ms)))"

text \<open>The snippet object built from the bundle in memory.\<close>

definition result_members :: "js \<Rightarrow> thrown + (string \<times> js) list" where
  "result_members llm =
     bindE (get_prop llm ''explanation'') (\<lambda>ex.
     bindE (get_prop llm ''mermaid'') (\<lambda>me.
     bindE (get_prop llm ''trace'') (\<lambda>tr.
       Inr [(''explanation'', ex), (''mermaid_diagram'', me), (''trace_table'', tr),
            (''status'', Str ''ready'')])))"

definition in_memory_result :: "js \<Rightarrow> js \<Rightarrow> thrown + response" where
  "in_memory_result sid llm =
     bindE (result_members llm) (\<lambda>ms.
     bindE (temp_quizzes sid llm) (\<lambda>qs.
       Inr (json_response 200 (Obj [(''snippet'', Obj ((''id'', sid) # ms)), (''quizzes'', qs)]))))"

text \<open>The innermost \<^verbatim>\<open>try\<close>: delete the snippet's quizzes (the reply is not
  looked at), insert the new ones.\<close>

definition quiz_replace_try ::
  "world \<Rightarrow> store \<Rightarrow> js \<Rightarrow> js \<Rightarrow> row \<Rightarrow> (thrown + response) \<times> store" where
  "quiz_replace_try w st sid llm updatedSnippet =
     (case quizzes_delete w [(''snippet_id'', sid)] st of
        (Threw e, st1) \<Rightarrow> (Inl e, st1)
      | (_, st1) \<Rightarrow>
          (case bindE (get_prop llm ''quizzes'') (\<lambda>qs. array_map qs (quiz_insert_row sid)) of
             Inl e \<Rightarrow> (Inl e, st1)
           | Inr quizInserts \<Rightarrow>
               (case quizzes_insert w quizInserts st1 of
                  (Threw e, st2) \<Rightarrow> (Inl e, st2)
                | (Failed, st2) \<Rightarrow>
                    (bindE (temp_quizzes sid llm) (\<lambda>qs.
                       Inr (json_response 200
                              (Obj [(''snippet'', Obj updatedSnippet), (''quizzes'', qs)]))),
                     st2)
                | (Returned quizData, st2) \<Rightarrow>
                    (Inr (json_response 200
                            (Obj [(''snippet'', Obj updatedSnippet),
                                  (''quizzes'', Arr (map Obj quizData))])),
                     st2))))"

text \<open>With its \<^verbatim>\<open>catch (quizError)\<close>: the response without quizzes.\<close>

definition quiz_replace :: "world \<Rightarrow> store \<Rightarrow> js \<Rightarrow> js \<Rightarrow> row \<Rightarrow> response \<times> store" where
  "quiz_replace w st sid llm updatedSnippet =
     (case quiz_replace_try w st sid llm updatedSnippet of
        (Inr r, st1) \<Rightarrow> (r, st1)
      | (Inl e, st1) \<Rightarrow>
          (json_response 200 (Obj [(''snippet'', Obj updatedSnippet), (''quizzes'', Arr [])]),
           st1))"

text \<open>The \<^verbatim>\<open>try\<close> around the result write; the patch is built before the request is
  sent.\<close>

definition persist_try :: "world \<Rightarrow> store \<Rightarrow> js \<Rightarrow> js \<Rightarrow> (thrown + response) \<times> store" where
  "persist_try w st sid llm =
     (case result_members llm of
        Inl e \<Rightarrow> (Inl e, st)
      | Inr patch \<Rightarrow>
          (case snippets_update_single w patch [(''id'', sid)] st of
             (Threw e, st1) \<Rightarrow> (Inl e, st1)
           | (Failed, st1) \<Rightarrow> (in_memory_result sid llm, st1)
           | (Returned updatedSnippet, st1) \<Rightarrow>
               (case quiz_replace w st1 sid llm updatedSnippet of
                  (r, st2) \<Rightarrow> (Inr r, st2))))"

text \<open>With its \<^verbatim>\<open>catch (dbError)\<close>, which reads the bundle again and so may throw
  itself.\<close>

definition persist :: "world \<Rightarrow> store \<Rightarrow> js \<Rightarrow> js \<Rightarrow> (thrown + response) \<times> store" where
  "persist w st sid llm =
     (case persist_try w st sid llm of
        (Inr r, st1) \<Rightarrow> (Inr r, st1)
      | (Inl e, st1) \<Rightarrow>
          (in_memory_result (if truthy sid then sid else Str ''temp'') llm, st1))"

text \<open>From the snippet's identifier on: the bundle, then its persistence.\<close>

definition explain :: "world \<Rightarrow> store \<Rightarrow> js \<Rightarrow> ExplainRequest \<Rightarrow> string \<Rightarrow> string
    \<Rightarrow> (thrown + response) \<times> store" where
  "explain w st sid b code language =
     persist w st sid (callLLM w code language (str_or (req_reading_level b) ''cs1''))"

text \<open>Create or update the snippet.\<close>

definition resolve_snippet :: "world \<Rightarrow> store \<Rightarrow> string \<Rightarrow> ExplainRequest \<Rightarrow> string \<Rightarrow> string
    \<Rightarrow> (thrown + response) \<times> store" where
  "resolve_snippet w st userId b code language =
     (if truthy_str (req_snippet_id b) then
        (case snippets_update w
                [(''title'', js_opt (req_title b)), (''language'', Str language),
                 (''code'', Str code), (''status'', Str ''pending'')]
                [(''id'', js_opt (req_snippet_id b)), (''owner'', Str userId)] st of
           (Threw e, st1) \<Rightarrow> (Inl e, st1)
         | (Failed, st1) \<Rightarrow> (Inr (error_response 500 ''Failed to update snippet''), st1)
         | (Returned u, st1) \<Rightarrow> explain w st1 (js_opt (req_snippet_id b)) b code language)
      else
        (case snippets_insert w
                [(''owner'', Str userId), (''title'', Str (str_or (req_title b) ''Untitled'')),
                 (''language'', Str language), (''code'', Str code),
                 (''status'', Str ''pending'')] st of
           (Threw e, st1) \<Rightarrow> (Inl e, st1)
         | (Failed, st1) \<Rightarrow> (Inr (error_response 500 ''Failed to create snippet''), st1)
         | (Returned snippetData, st1) \<Rightarrow>
             (case get_prop (Obj snippetData) ''id'' of
                Inl e \<Rightarrow> (Inl e, st1)
              | Inr sid \<Rightarrow> explain w st1 sid b code language)))"

text \<open>The body of the outer \<^verbatim>\<open>try\<close>. \<^verbatim>\<open>createClient\<close> throws when the URL or
  the key is missing.\<close>

definition serve_try :: "world \<Rightarrow> store \<Rightarrow> request \<Rightarrow> (thrown + response) \<times> store" where
  "serve_try w st rq =
     (if \<not> truthy_str (SUPABASE_URL w) \<or> \<not> truthy_str (SUPABASE_SERVICE_ROLE_KEY w)
      then (Inl (Foreign None), st)
      else if \<not> truthy_str (authorization rq)
      then (Inr (error_response 401 ''Missing authorization header''), st)
      else
        (case getUser w (replace_first ''Bearer '' [] (str_or (authorization rq) [])) of
           AuthThrows e \<Rightarrow> (Inl e, st)
         | AuthError \<Rightarrow> (Inr (error_response 401 ''Invalid token''), st)
         | AuthNoUser \<Rightarrow> (Inr (error_response 401 ''Invalid token''), st)
         | AuthUser userId \<Rightarrow>
             (case json_body rq of
                None \<Rightarrow> (Inl SyntaxError, st)
              | Some b \<Rightarrow>
                  if \<not> truthy_str (req_code b) \<or> \<not> truthy_str (req_language b)
                  then (Inr (error_response 400 ''Missing required fields: code, language''), st)
                  else resolve_snippet w st userId b (str_or (req_code b) [])
                         (str_or (req_language b) []))))"

text \<open>The outer \<^verbatim>\<open>catch\<close>: the last response, from the heuristic generator.\<close>

definition requestBody :: "thrown \<Rightarrow> request_body option" where
  "requestBody e = (case e of Foreign rb \<Rightarrow> rb | _ \<Rightarrow> None)"

definition fallback_quiz :: "nat \<times> quiz \<Rightarrow> js" where
  "fallback_quiz iq =
     Obj [(''id'', Str (''fallback_'' @ string_of_nat (fst iq))),
          (''snippet_id'', Str ''fallback''),
          (''question'', Str (question (snd iq))),
          (''choices'', Arr (map Str (choices (snd iq)))),
          (''answer'', Str (answer (snd iq))),
          (''hint'', Str (hint (snd iq))),
          (''difficulty'', Str (difficulty (snd iq)))]"

definition final_fallback :: "thrown \<Rightarrow> response" where
  "final_fallback e =
     (let fallbackResponse =
            generateFallbackResponse
              (str_or (case requestBody e of None \<Rightarrow> None | Some rb \<Rightarrow> rb_code rb)
                 ''Sample code'')
              (str_or (case requestBody e of None \<Rightarrow> None | Some rb \<Rightarrow> rb_language rb)
                 ''javascript'')
              (str_or (case requestBody e of None \<Rightarrow> None | Some rb \<Rightarrow> rb_reading_level rb)
                 ''cs1'')
      in json_response 200
           (Obj [(''snippet'',
                  Obj [(''id'', Str ''fallback''),
                       (''explanation'', Str (explanation fallbackResponse)),
                       (''mermaid_diagram'', Str (mermaid fallbackResponse)),
                       (''trace_table'', encode_trace (trace fallbackResponse)),
                       (''status'', Str ''ready'')]),
                 (''quizzes'',
                  Arr (map fallback_quiz (enumerate 0 (quizzes fallbackResponse))))]))"

definition serve :: "world \<Rightarrow> store \<Rightarrow> request \<Rightarrow> response \<times> store" where
  "serve w st rq =
     (if http_method rq = ''OPTIONS'' then (\<lparr> resp_status = 200, resp_body = None \<rparr>, st)
      else (case serve_try w st rq of
              (Inr r, st1) \<Rightarrow> (r, st1)
            | (Inl e, st1) \<Rightarrow> (final_fallback e, st1)))"

section \<open>What the specification speaks of\<close>

text \<open>The definitions of this section come from the wording of the specification, to be
  compared with the functions above.\<close>

subsection \<open>Diagram templates and explanation registers\<close>

datatype template = LoopWithBranch | Loop | Branch | StraightLine

definition select_template :: "bool \<Rightarrow> bool \<Rightarrow> template" where
  "select_template loops conditionals =
     (if loops then (if conditionals then LoopWithBranch else Loop)
      else (if conditionals then Branch else StraightLine))"

fun render_template :: "template \<Rightarrow> string" where
  "render_template LoopWithBranch =
     ''graph TD\<newline>    A[Start] --> B[Initialize Variables]\<newline>    B --> C[Loop Condition]\<newline>    C -->|True| D{Check Condition}\<newline>    D -->|Met| E[Execute Action A]\<newline>    D -->|Not Met| F[Execute Action B]\<newline>    E --> G[Update Variables]\<newline>    F --> G\<newline>    G --> C\<newline>    C -->|False| H[End]''"
| "render_template Loop =
     ''graph TD\<newline>    A[Start] --> B[Initialize Counter]\<newline>    B --> C[Check Loop Condition]\<newline>    C -->|True| D[Execute Loop Body]\<newline>    D --> E[Update Counter]\<newline>    E --> C\<newline>    C -->|False| F[End]''"
| "render_template Branch =
     ''graph TD\<newline>    A[Start] --> B[Check Condition]\<newline>    B -->|True| C[Execute Branch A]\<newline>    B -->|False| D[Execute Branch B]\<newline>    C --> E[End]\<newline>    D --> E''"
| "render_template StraightLine =
     ''graph TD\<newline>    A[Start] --> B[Process Input]\<newline>    B --> C[Apply Logic]\<newline>    C --> D[Generate Output]\<newline>    D --> E[End]''"

datatype register = ChildFriendly | TeenFriendly | TechnicalProfessional

definition register_of :: "string \<Rightarrow> register" where
  "register_of readingLevel =
     (if readingLevel = ''12'' then ChildFriendly
      else if readingLevel = ''15'' then TeenFriendly
      else TechnicalProfessional)"

fun base_sentence :: "register \<Rightarrow> string \<Rightarrow> string" where
  "base_sentence ChildFriendly language =
     ''This '' @ language @ '' code is like following a recipe! It takes some information (ingredients) and follows step-by-step instructions to create a result. The computer reads each line and does what it says, just like you would follow cooking instructions.''"
| "base_sentence TeenFriendly language =
     ''This '' @ language @ '' code demonstrates fundamental programming concepts. It processes input data through a series of logical operations to produce a desired output.''"
| "base_sentence TechnicalProfessional language =
     ''This '' @ language @ '' code implements a computational algorithm using standard programming constructs. The implementation follows best practices for readability and maintainability.''"

fun loops_clause :: "register \<Rightarrow> string" where
  "loops_clause ChildFriendly =
     '' Some steps say 'repeat this part until something happens' - that's like stirring until the mixture is smooth.''"
| "loops_clause TeenFriendly = '' It uses loops to repeat certain operations efficiently.''"
| "loops_clause TechnicalProfessional =
     '' Iterative constructs handle repetitive operations with appropriate termination conditions.''"

fun conditionals_clause :: "register \<Rightarrow> string" where
  "conditionals_clause ChildFriendly =
     '' Other steps say 'if this, then do that' - like checking if the cake is done before taking it out.''"
| "conditionals_clause TeenFriendly =
     '' Conditional statements help the program make decisions based on different scenarios.''"
| "conditionals_clause TechnicalProfessional =
     '' Conditional logic enables branching behavior based on runtime evaluation.''"

text \<open>The functions clause of a register, \<open>None\<close> for a register that has none.\<close>

fun functions_clause :: "register \<Rightarrow> string option" where
  "functions_clause ChildFriendly = None"
| "functions_clause TeenFriendly =
     Some '' Functions help organize the code into reusable blocks.''"
| "functions_clause TechnicalProfessional =
     Some '' Modular function design promotes code reusability and separation of concerns.''"

definition clause_if :: "bool \<Rightarrow> string \<Rightarrow> string" where
  "clause_if signal text = (if signal then text else [])"

definition extended_sentence :: "register \<Rightarrow> string \<Rightarrow> bool \<Rightarrow> bool \<Rightarrow> bool \<Rightarrow> string" where
  "extended_sentence reg language loops conditionals functions =
     base_sentence reg language
       @ clause_if loops (loops_clause reg)
       @ clause_if conditionals (conditionals_clause reg)
       @ clause_if functions (case functions_clause reg of None \<Rightarrow> [] | Some c \<Rightarrow> c)"

subsection \<open>Observations on a response\<close>

definition js_get :: "js \<Rightarrow> string \<Rightarrow> js" where
  "js_get v k = (case get_prop v k of Inr x \<Rightarrow> x | Inl e \<Rightarrow> Undefined)"

definition response_snippet :: "response \<Rightarrow> js" where
  "response_snippet r = (case resp_body r of None \<Rightarrow> Undefined | Some b \<Rightarrow> js_get b ''snippet'')"

definition response_quizzes :: "response \<Rightarrow> js" where
  "response_quizzes r = (case resp_body r of None \<Rightarrow> Undefined | Some b \<Rightarrow> js_get b ''quizzes'')"

definition snippet_status :: "response \<Rightarrow> js" where
  "snippet_status r = js_get (response_snippet r) ''status''"

definition is_array :: "js \<Rightarrow> bool" where
  "is_array v = (case v of Arr xs \<Rightarrow> True | _ \<Rightarrow> False)"

definition quiz_ids :: "response \<Rightarrow> js list" where
  "quiz_ids r = (case response_quizzes r of Arr qs \<Rightarrow> map (\<lambda>q. js_get q ''id'') qs | _ \<Rightarrow> [])"

text \<open>Status 200, a snippet that reports \<^verbatim>\<open>ready\<close>, and an array of quizzes: what
  every answer of the handler other than an error has, whatever the bundle was.\<close>

definition ready_response :: "response \<Rightarrow> bool" where
  "ready_response r =
     (resp_status r = 200 \<and> resp_body r \<noteq> None \<and> snippet_status r = Str ''ready'' \<and>
      is_array (response_quizzes r))"

text \<open>What the handler can read of a bundle. \<open>quiz_array\<close> is the array of quizzes the
  two \<^verbatim>\<open>map\<close> calls go through without a TypeError: the member \<^verbatim>\<open>quizzes\<close> is an
  array and none of its elements is \<^verbatim>\<open>null\<close> or \<^verbatim>\<open>undefined\<close>.\<close>

definition nullish :: "js \<Rightarrow> bool" where
  "nullish v = (v = Undefined \<or> v = Null)"

definition quiz_array :: "js \<Rightarrow> js list option" where
  "quiz_array llm =
     (case js_get llm ''quizzes'' of
        Arr qs \<Rightarrow> if list_ex nullish qs then None else Some qs
      | _ \<Rightarrow> None)"

definition is_string :: "js \<Rightarrow> bool" where
  "is_string v = (case v of Str s \<Rightarrow> True | _ \<Rightarrow> False)"

definition is_object :: "js \<Rightarrow> bool" where
  "is_object v = (case v of Obj kvs \<Rightarrow> True | _ \<Rightarrow> False)"

text \<open>A bundle with its four parts: an explanation and a diagram that are strings, a trace
  that is an object, and a non-empty array of quizzes. Every value of type
  \<^verbatim>\<open>LLMResponse\<close> with a quiz is one.\<close>

definition has_bundle_parts :: "js \<Rightarrow> bool" where
  "has_bundle_parts llm =
     (is_string (js_get llm ''explanation'') \<and> is_string (js_get llm ''mermaid'') \<and>
      is_object (js_get llm ''trace'') \<and>
      (case quiz_array llm of Some (q # qs) \<Rightarrow> True | _ \<Rightarrow> False))"

text \<open>A snippet of a response that carries the generated content.\<close>

definition has_result_parts :: "js \<Rightarrow> bool" where
  "has_result_parts s =
     (is_string (js_get s ''explanation'') \<and> is_string (js_get s ''mermaid_diagram'') \<and>
      is_object (js_get s ''trace_table''))"

text \<open>A usable content body: status 200, a snippet that reports ready and carries the
  generated content, and a non-empty array of quizzes.\<close>

definition usable_content_body :: "response \<Rightarrow> bool" where
  "usable_content_body r =
     (resp_status r = 200 \<and> snippet_status r = Str ''ready'' \<and>
      has_result_parts (response_snippet r) \<and>
      (case response_quizzes r of Arr (q # qs) \<Rightarrow> True | _ \<Rightarrow> False))"

text \<open>The row sent to the store for a quiz of the bundle.\<close>

definition quiz_row :: "js \<Rightarrow> js \<Rightarrow> js" where
  "quiz_row sid q =
     Obj [(''snippet_id'', sid), (''question'', js_get q ''question''),
          (''choices'', js_get q ''choices''), (''answer'', js_get q ''answer''),
          (''hint'', js_get q ''hint''), (''difficulty'', js_get q ''difficulty'')]"

text \<open>The snippet and the quizzes built from the bundle in memory, the quizzes under
  temporary identifiers.\<close>

definition in_memory_snippet :: "js \<Rightarrow> js \<Rightarrow> js" where
  "in_memory_snippet sid llm =
     Obj [(''id'', sid), (''explanation'', js_get llm ''explanation''),
          (''mermaid_diagram'', js_get llm ''mermaid''), (''trace_table'', js_get llm ''trace''),
          (''status'', Str ''ready'')]"

definition temp_quiz :: "js \<Rightarrow> nat \<times> js \<Rightarrow> js" where
  "temp_quiz sid iq =
     Obj [(''id'', Str (''temp_'' @ string_of_nat (fst iq))), (''snippet_id'', sid),
          (''question'', js_get (snd iq) ''question''),
          (''choices'', js_get (snd iq) ''choices''),
          (''answer'', js_get (snd iq) ''answer''),
          (''hint'', js_get (snd iq) ''hint''),
          (''difficulty'', js_get (snd iq) ''difficulty'')]"

text \<open>The identifier the handler works on: the one of the request, or the one the store
  gave to the new snippet.\<close>

definition resolved_id :: "world \<Rightarrow> ExplainRequest \<Rightarrow> js" where
  "resolved_id w b =
     (if truthy_str (req_snippet_id b) then js_opt (req_snippet_id b)
      else Str (new_snippet_id w))"

text \<open>The request is not a preflight, the client is created, the token names a user, and
  the body has a code and a language: it passes the authorization and validation checks.\<close>

definition passes_gate :: "world \<Rightarrow> request \<Rightarrow> string \<Rightarrow> ExplainRequest \<Rightarrow> bool" where
  "passes_gate w rq userId b =
     (http_method rq \<noteq> ''OPTIONS'' \<and> truthy_str (SUPABASE_URL w) \<and>
      truthy_str (SUPABASE_SERVICE_ROLE_KEY w) \<and> truthy_str (authorization rq) \<and>
      getUser w (replace_first ''Bearer '' [] (str_or (authorization rq) [])) = AuthUser userId \<and>
      json_body rq = Some b \<and> truthy_str (req_code b) \<and> truthy_str (req_language b))"

subsection \<open>A concrete run\<close>

text \<open>Alice is the caller; the store holds one snippet of Bob's, with one quiz. No model
  credential is configured and every store request goes through, unless a theorem changes
  that.\<close>

definition demo_world :: world where
  "demo_world =
     \<lparr> SUPABASE_URL = Some ''https://db.example'', SUPABASE_SERVICE_ROLE_KEY = Some ''service'',
       OPENAI_API_KEY = None,
       getUser = (\<lambda>t. if t = ''alice-token'' then AuthUser ''alice'' else AuthError),
       fetch_reply = FetchRejects, JSON_parse = (\<lambda>v. None),
       snippet_upsert = Succeeds, result_write = Succeeds, quiz_delete = Succeeds,
       quiz_insert = Succeeds,
       new_snippet_id = ''s2'', new_quiz_id = (\<lambda>i. ''q'' @ string_of_nat (i + 2)) \<rparr>"

definition bobs_snippet :: row where
  "bobs_snippet =
     [(''id'', Str ''s1''), (''owner'', Str ''bob''), (''title'', Str ''payroll''),
      (''language'', Str ''sql''), (''code'', Str ''select 1''), (''status'', Str ''ready''),
      (''explanation'', Str ''old'')]"

definition bobs_quiz :: row where
  "bobs_quiz = [(''id'', Str ''q1''), (''snippet_id'', Str ''s1''), (''question'', Str ''Q'')]"

definition demo_store :: store where
  "demo_store = \<lparr> snippets_tbl = [bobs_snippet], quizzes_tbl = [bobs_quiz], calls = [] \<rparr>"

definition demo_body :: "string option \<Rightarrow> ExplainRequest" where
  "demo_body sid =
     \<lparr> req_snippet_id = sid, req_title = None, req_language = Some ''python'',
       req_code = Some ''for i in range(10): print(i)'', req_reading_level = Some ''12'' \<rparr>"

definition demo_request :: "string option \<Rightarrow> request" where
  "demo_request sid =
     \<lparr> http_method = ''POST'', authorization = Some ''Bearer alice-token'',
       json_body = Some (demo_body sid) \<rparr>"

text \<open>A reply of the model service whose content is the text \<^verbatim>\<open>{}\<close>, and a
  \<^verbatim>\<open>JSON.parse\<close> that is right on that text.\<close>

definition empty_object_reply :: fetch_outcome where
  "empty_object_reply =
     Responds True 200
       (Some (Obj [(''choices'', Arr [Obj [(''message'', Obj [(''content'', Str ''{}'')])]])]))"

definition parse_empty_object :: "js \<Rightarrow> js option" where
  "parse_empty_object v = (if v = Str ''{}'' then Some (Obj []) else None)"

text \<open>The concrete run with a model credential and that reply.\<close>

definition unshaped_world :: world where
  "unshaped_world =
     demo_world\<lparr>OPENAI_API_KEY := Some ''sk-test'', fetch_reply := empty_object_reply,
       JSON_parse := parse_empty_object\<rparr>"

section \<open>Auxiliary facts\<close>

subsection \<open>Sequencing and the printing of indices\<close>

lemma bindE_Inr: "bindE m f = Inr y \<longleftrightarrow> (\<exists>x. m = Inr x \<and> f x = Inr y)"
  by (cases m) (simp_all add: bindE_def)

lemma bindE_simps [simp]: "bindE (Inl e) f = Inl e" "bindE (Inr x) f = f x"
  by (simp_all add: bindE_def)

lemma digit_char_inj: "a < 10 \<Longrightarrow> b < 10 \<Longrightarrow> digit_char a = digit_char b \<Longrightarrow> a = b"
proof -
  assume a: "a < 10" and b: "b < 10" and e: "digit_char a = digit_char b"
  have d: "distinct ''0123456789''" by simp
  from a b e show ?thesis
    using nth_eq_iff_index_eq [OF d, of a b] by (simp add: digit_char_def)
qed

lemma string_of_nat_length: "length (string_of_nat n) = 1 \<longleftrightarrow> n < 10"
proof (cases "n < 10")
  case True
  then show ?thesis by (simp add: string_of_nat.simps)
next
  case False
  have "string_of_nat (n div 10) \<noteq> []"
    by (subst string_of_nat.simps) simp
  with False show ?thesis
    by (subst string_of_nat.simps) simp
qed

lemma string_of_nat_inj: "string_of_nat m = string_of_nat n \<Longrightarrow> m = n"
proof (induction m arbitrary: n rule: string_of_nat.induct)
  case (1 m)
  show ?case
  proof (cases "m < 10")
    case True
    with "1.prems" have n: "n < 10"
      using string_of_nat_length [of m] string_of_nat_length [of n] by simp
    with True "1.prems" show ?thesis
      by (simp add: string_of_nat.simps [of m] string_of_nat.simps [of n] digit_char_inj)
  next
    case False
    with "1.prems" have n: "\<not> n < 10"
      using string_of_nat_length [of m] string_of_nat_length [of n] by simp
    from False n "1.prems"
    have "string_of_nat (m div 10) @ [digit_char (m mod 10)] =
          string_of_nat (n div 10) @ [digit_char (n mod 10)]"
      by (simp add: string_of_nat.simps [of m] string_of_nat.simps [of n])
    then have a: "string_of_nat (m div 10) = string_of_nat (n div 10)"
      and b: "digit_char (m mod 10) = digit_char (n mod 10)"
      by simp_all
    from "1.IH" [OF False a] have "m div 10 = n div 10" .
    moreover from b have "m mod 10 = n mod 10"
      by (simp add: digit_char_inj)
    ultimately show ?thesis
      by (metis div_mult_mod_eq)
  qed
qed

lemma temp_ids_distinct: "distinct (map (\<lambda>i. Str (pre @ string_of_nat i)) [0..<n])"
  by (simp add: distinct_map inj_on_def string_of_nat_inj)

lemma temp_ids_three:
  "map (\<lambda>i. Str (''temp_'' @ string_of_nat i)) [0..<3] =
     [Str ''temp_0'', Str ''temp_1'', Str ''temp_2'']"
  by (simp add: upt_rec numeral_3_eq_3 string_of_nat.simps digit_char_def)

subsection \<open>The two generators\<close>

lemma mermaid_template:
  "mermaid (generateFallbackResponse c l r) =
     render_template (select_template (hasLoops c) (hasConditionals c))"
  by (simp add: generateFallbackResponse_def fallback_mermaid_def select_template_def)

lemma render_template_inj: "render_template a = render_template b \<Longrightarrow> a = b"
  by (cases a; cases b) simp_all

lemma bundles_differ:
  "encode_bundle (mock_response l) \<noteq> encode_bundle (generateFallbackResponse c l' r)"
  by (simp add: encode_bundle_def encode_trace_def mock_response_def generateFallbackResponse_def)

subsection \<open>The paths of the handler\<close>

lemma result_members_Inr:
  "result_members llm = Inr ms \<Longrightarrow>
     \<exists>ex me tr. ms = [(''explanation'', ex), (''mermaid_diagram'', me), (''trace_table'', tr),
            (''status'', Str ''ready'')]"
  by (auto simp add: result_members_def bindE_Inr)

lemma temp_quizzes_Inr: "temp_quizzes sid llm = Inr qs \<Longrightarrow> is_array qs"
  by (auto simp add: temp_quizzes_def bindE_Inr is_array_def)

lemma ready_responseI:
  "map_of s ''status'' = Some (Str ''ready'') \<Longrightarrow> is_array qs \<Longrightarrow>
     ready_response (json_response 200 (Obj [(''snippet'', Obj s), (''quizzes'', qs)]))"
  by (simp add: ready_response_def json_response_def snippet_status_def response_snippet_def
        response_quizzes_def js_get_def)

lemma in_memory_result_content:
  assumes "in_memory_result sid llm = Inr r"
  shows "ready_response r"
proof -
  from assms obtain ms qs where ms: "result_members llm = Inr ms"
    and qs: "temp_quizzes sid llm = Inr qs"
    and r: "r = json_response 200 (Obj [(''snippet'', Obj ((''id'', sid) # ms)), (''quizzes'', qs)])"
    by (auto simp add: in_memory_result_def bindE_Inr)
  from ms have "map_of ((''id'', sid) # ms) ''status'' = Some (Str ''ready'')"
    by (auto dest!: result_members_Inr)
  with qs r show ?thesis
    by (simp add: ready_responseI temp_quizzes_Inr)
qed

lemma status_after_patch:
  "map_of (apply_patch [(''explanation'', ex), (''mermaid_diagram'', me), (''trace_table'', tr),
            (''status'', Str ''ready'')] r) ''status'' = Some (Str ''ready'')"
  by (simp add: apply_patch_def set_col_def update_conv')

lemma quiz_replace_content:
  assumes "map_of us ''status'' = Some (Str ''ready'')"
  shows "ready_response (fst (quiz_replace w st sid llm us))"
proof -
  have e: "ready_response (json_response 200 (Obj [(''snippet'', Obj us), (''quizzes'', Arr ys)]))"
    for ys using assms by (simp add: ready_responseI is_array_def)
  have t: "ready_response (json_response 200 (Obj [(''snippet'', Obj us), (''quizzes'', qs)]))"
    if "temp_quizzes sid llm = Inr qs" for qs
    using assms that by (simp add: ready_responseI temp_quizzes_Inr)
  show ?thesis
    by (auto simp add: quiz_replace_def quiz_replace_try_def e t bindE_Inr
          split: prod.splits sum.splits reply.splits)
qed

lemma persist_try_content:
  assumes "persist_try w st sid llm = (Inr r, st1)"
  shows "ready_response r"
proof (cases "result_members llm")
  case (Inl e)
  with assms show ?thesis by (simp add: persist_try_def)
next
  case (Inr patch)
  then have s: "map_of (apply_patch patch row) ''status'' = Some (Str ''ready'')" for row
    by (auto dest!: result_members_Inr simp add: status_after_patch)
  show ?thesis
  proof (cases "snippets_update_single w patch [(''id'', sid)] st")
    case (Pair rep st2)
    show ?thesis
    proof (cases rep)
      case (Threw e)
      with assms Inr Pair show ?thesis by (simp add: persist_try_def)
    next
      case Failed
      with assms Inr Pair show ?thesis
        by (auto simp add: persist_try_def dest: in_memory_result_content)
    next
      case (Returned us)
      with Pair have "\<exists>row. us = apply_patch patch row"
        by (auto simp add: snippets_update_single_def Let_def
              split: fault.splits list.splits)
      with s have "map_of us ''status'' = Some (Str ''ready'')" by auto
      from quiz_replace_content [OF this, of w st2 sid llm] assms Inr Pair Returned
      show ?thesis
        by (auto simp add: persist_try_def split: prod.splits)
    qed
  qed
qed

lemma persist_content:
  "persist w st sid llm = (Inr r, st1) \<Longrightarrow> ready_response r"
  by (auto simp add: persist_def split: sum.splits prod.splits
        dest: persist_try_content in_memory_result_content)

lemma final_fallback_content: "ready_response (final_fallback e)"
  by (simp add: final_fallback_def Let_def ready_responseI is_array_def)

lemma resolve_snippet_cases:
  "resolve_snippet w st u b c l = (Inr r, st1) \<Longrightarrow>
     (snippet_upsert w = Reports \<and> resp_status r = 500) \<or>
     (snippet_upsert w = Succeeds \<and> ready_response r)"
  by (auto simp add: resolve_snippet_def explain_def snippets_update_def snippets_insert_def
        Let_def error_response_def json_response_def
        split: if_splits fault.splits dest: persist_content)

lemma resolve_snippet_throws:
  "resolve_snippet w st u b c l = (Inl e, st1) \<Longrightarrow> snippet_upsert w \<noteq> Reports"
  by (auto simp add: resolve_snippet_def explain_def snippets_update_def snippets_insert_def
        Let_def split: if_splits fault.splits)

lemma serve_past_gate:
  "passes_gate w rq u b \<Longrightarrow>
     serve w st rq =
       (case resolve_snippet w st u b (str_or (req_code b) []) (str_or (req_language b) []) of
          (Inr r, st1) \<Rightarrow> (r, st1)
        | (Inl e, st1) \<Rightarrow> (final_fallback e, st1))"
  by (simp add: passes_gate_def serve_def serve_try_def)

lemma serve_try_cases:
  "serve_try w st rq = (Inr r, st1) \<Longrightarrow>
     ready_response r \<or> resp_status r = 400 \<or> resp_status r = 401 \<or> resp_status r = 500"
  by (auto simp add: serve_try_def error_response_def json_response_def
        split: if_splits auth_outcome.splits option.splits dest: resolve_snippet_cases)

lemma demo_gate: "passes_gate demo_world (demo_request sid) ''alice'' (demo_body sid)"
  by (simp add: passes_gate_def demo_world_def demo_request_def demo_body_def truthy_str_def
        str_or_def)

subsection \<open>Reading the bundle\<close>

lemma get_prop_js_get: "\<not> nullish v \<Longrightarrow> get_prop v k = Inr (js_get v k)"
  by (cases v) (simp_all add: nullish_def js_get_def)

lemma get_prop_nullish: "nullish v \<Longrightarrow> get_prop v k = Inl TypeError"
  by (auto simp add: nullish_def)

lemma js_get_nullish: "nullish v \<Longrightarrow> js_get v k = Undefined"
  by (auto simp add: nullish_def js_get_def)

lemma quiz_array_not_nullish: "quiz_array llm = Some qs \<Longrightarrow> \<not> nullish llm"
  by (auto simp add: quiz_array_def js_get_nullish)

lemma quiz_members_js:
  "\<not> nullish q \<Longrightarrow>
     quiz_members q =
       Inr [(''question'', js_get q ''question''), (''choices'', js_get q ''choices''),
            (''answer'', js_get q ''answer''), (''hint'', js_get q ''hint''),
            (''difficulty'', js_get q ''difficulty'')]"
  by (simp add: quiz_members_def get_prop_js_get)

lemma quiz_members_nullish: "nullish q \<Longrightarrow> quiz_members q = Inl TypeError"
  by (simp add: quiz_members_def get_prop_nullish)

lemma map_index_temp:
  "\<not> list_ex nullish qs \<Longrightarrow>
     map_index (quiz_with_id ''temp_'' sid) i qs = Inr (map (temp_quiz sid) (enumerate i qs))"
  by (induction qs arbitrary: i) (simp_all add: quiz_with_id_def quiz_members_js temp_quiz_def)

lemma map_index_rows:
  "\<not> list_ex nullish qs \<Longrightarrow>
     map_index (quiz_insert_row sid) i qs = Inr (map (quiz_row sid) qs)"
  by (induction qs arbitrary: i) (simp_all add: quiz_insert_row_def quiz_members_js quiz_row_def)

lemma map_index_temp_nullish:
  "list_ex nullish qs \<Longrightarrow> map_index (quiz_with_id pre sid) i qs = Inl TypeError"
proof (induction qs arbitrary: i)
  case Nil
  then show ?case by simp
next
  case (Cons q qs)
  show ?case
  proof (cases "nullish q")
    case True
    then show ?thesis by (simp add: quiz_with_id_def quiz_members_nullish)
  next
    case False
    with Cons.prems have "list_ex nullish qs" by simp
    from Cons.IH [OF this] False show ?thesis
      by (simp add: quiz_with_id_def quiz_members_js)
  qed
qed

lemma map_index_rows_nullish:
  "list_ex nullish qs \<Longrightarrow> map_index (quiz_insert_row sid) i qs = Inl TypeError"
proof (induction qs arbitrary: i)
  case Nil
  then show ?case by simp
next
  case (Cons q qs)
  show ?case
  proof (cases "nullish q")
    case True
    then show ?thesis by (simp add: quiz_insert_row_def quiz_members_nullish)
  next
    case False
    with Cons.prems have "list_ex nullish qs" by simp
    from Cons.IH [OF this] False show ?thesis
      by (simp add: quiz_insert_row_def quiz_members_js)
  qed
qed

lemma temp_quizzes_eq:
  "temp_quizzes sid llm =
     (case quiz_array llm of
        Some qs \<Rightarrow> Inr (Arr (map (temp_quiz sid) (enumerate 0 qs)))
      | None \<Rightarrow> Inl TypeError)"
proof (cases "nullish llm")
  case True
  then show ?thesis
    by (simp add: temp_quizzes_def get_prop_nullish quiz_array_def js_get_nullish)
next
  case False
  then show ?thesis
    by (cases "js_get llm ''quizzes''")
      (simp_all add: temp_quizzes_def get_prop_js_get quiz_array_def array_map_def
         map_index_temp map_index_temp_nullish)
qed

lemma insert_rows_eq:
  "bindE (get_prop llm ''quizzes'') (\<lambda>qs. array_map qs (quiz_insert_row sid)) =
     (case quiz_array llm of
        Some qs \<Rightarrow> Inr (map (quiz_row sid) qs)
      | None \<Rightarrow> Inl TypeError)"
proof (cases "nullish llm")
  case True
  then show ?thesis
    by (simp add: get_prop_nullish quiz_array_def js_get_nullish)
next
  case False
  then show ?thesis
    by (cases "js_get llm ''quizzes''")
      (simp_all add: get_prop_js_get quiz_array_def array_map_def
         map_index_rows map_index_rows_nullish)
qed

lemma result_members_eq:
  "result_members llm =
     (if nullish llm then Inl TypeError
      else Inr [(''explanation'', js_get llm ''explanation''),
                (''mermaid_diagram'', js_get llm ''mermaid''),
                (''trace_table'', js_get llm ''trace''), (''status'', Str ''ready'')])"
  by (simp add: result_members_def get_prop_js_get get_prop_nullish)

lemma in_memory_result_eq:
  "in_memory_result sid llm =
     (case quiz_array llm of
        Some qs \<Rightarrow>
          Inr (json_response 200
                 (Obj [(''snippet'', in_memory_snippet sid llm),
                       (''quizzes'', Arr (map (temp_quiz sid) (enumerate 0 qs)))]))
      | None \<Rightarrow> Inl TypeError)"
proof (cases "nullish llm")
  case True
  then show ?thesis
    by (simp add: in_memory_result_def result_members_eq quiz_array_def js_get_nullish)
next
  case False
  then show ?thesis
    by (simp add: in_memory_result_def result_members_eq temp_quizzes_eq in_memory_snippet_def
          split: option.splits)
qed

lemma temp_quiz_ids:
  "map (\<lambda>q. js_get q ''id'') (map (temp_quiz sid) (enumerate n qs)) =
     map (\<lambda>i. Str (''temp_'' @ string_of_nat i)) [n..<n + length qs]"
  by (induction qs arbitrary: n) (simp_all add: temp_quiz_def js_get_def upt_rec)

lemma quiz_array_encode:
  "quiz_array (encode_bundle bun) = Some (map encode_quiz (quizzes bun))"
proof -
  have "\<not> list_ex nullish (map encode_quiz qs)" for qs
    by (induction qs) (simp_all add: encode_quiz_def nullish_def)
  then show ?thesis
    by (simp add: quiz_array_def encode_bundle_def js_get_def)
qed

lemma has_bundle_parts_encode:
  "quizzes bun \<noteq> [] \<Longrightarrow> has_bundle_parts (encode_bundle bun)"
  by (cases "quizzes bun")
    (simp_all add: has_bundle_parts_def quiz_array_encode,
     simp add: encode_bundle_def encode_trace_def js_get_def is_string_def is_object_def)

lemma final_fallback_ids:
  "quiz_ids (final_fallback e) = [Str ''fallback_0'', Str ''fallback_1'', Str ''fallback_2'']"
  by (simp add: final_fallback_def Let_def quiz_ids_def response_quizzes_def json_response_def
        js_get_def generateFallbackResponse_def fallback_quizzes_def enumerate_eq_zip upt_rec
        fallback_quiz_def string_of_nat.simps digit_char_def)

subsection \<open>The snippet row through the writes\<close>

lemma map_of_set_col: "k \<noteq> fst kv \<Longrightarrow> map_of (set_col kv r) k = map_of r k"
  by (simp add: set_col_def update_conv')

lemma map_of_apply_patch:
  "k \<notin> fst ` set patch \<Longrightarrow> map_of (apply_patch patch r) k = map_of r k"
  unfolding apply_patch_def
  by (induction patch arbitrary: r) (simp_all add: map_of_set_col)

lemma matches_id_apply_patch:
  "''id'' \<notin> fst ` set patch \<Longrightarrow>
     matches [(''id'', sid)] (apply_patch patch r) = matches [(''id'', sid)] r"
  by (simp add: matches_def map_of_apply_patch)

lemma filter_id_update_rows:
  "''id'' \<notin> fst ` set patch \<Longrightarrow>
     filter (matches [(''id'', sid)]) (update_rows patch filters rows) =
       map (\<lambda>r. if matches filters r then apply_patch patch r else r)
         (filter (matches [(''id'', sid)]) rows)"
  unfolding update_rows_def
  by (induction rows) (simp_all add: matches_id_apply_patch)

lemma quizzes_delete_snippets:
  "snippets_tbl (snd (quizzes_delete w filters st)) = snippets_tbl st"
  by (simp add: quizzes_delete_def Let_def log_call_def split: fault.splits)

lemma quizzes_insert_snippets:
  "snippets_tbl (snd (quizzes_insert w vals st)) = snippets_tbl st"
  by (simp add: quizzes_insert_def Let_def log_call_def split: fault.splits)

lemma quiz_replace_try_snippets:
  "snippets_tbl (snd (quiz_replace_try w st sid llm us)) = snippets_tbl st"
proof (cases "quizzes_delete w [(''snippet_id'', sid)] st")
  case (Pair rep st1)
  then have d: "snippets_tbl st1 = snippets_tbl st"
    using quizzes_delete_snippets [of w "[(''snippet_id'', sid)]" st] by simp
  show ?thesis
  proof (cases "bindE (get_prop llm ''quizzes'') (\<lambda>qs. array_map qs (quiz_insert_row sid))")
    case (Inl e)
    with Pair d show ?thesis
      by (simp add: quiz_replace_try_def split: reply.splits)
  next
    case (Inr rows)
    obtain rep2 st2 where i: "quizzes_insert w rows st1 = (rep2, st2)"
      by (cases "quizzes_insert w rows st1")
    then have "snippets_tbl st2 = snippets_tbl st1"
      using quizzes_insert_snippets [of w rows st1] by simp
    with Pair d Inr i show ?thesis
      by (simp add: quiz_replace_try_def split: reply.splits)
  qed
qed

lemma quiz_replace_snippets:
  "snippets_tbl (snd (quiz_replace w st sid llm us)) = snippets_tbl st"
  using quiz_replace_try_snippets [of w st sid llm us]
  by (auto simp add: quiz_replace_def split: prod.splits sum.splits)


lemma resolve_succeeds:
  assumes "snippet_upsert w = Succeeds"
  shows "\<exists>st1. resolve_snippet w st u b c l = explain w st1 (resolved_id w b) b c l \<and>
           quizzes_tbl st1 = quizzes_tbl st \<and>
           calls st1 = calls st @ [if truthy_str (req_snippet_id b) then SnippetUpdate
                                   else SnippetInsert] \<and>
           length (filter (matches [(''id'', resolved_id w b)]) (snippets_tbl st1)) =
             length (filter (matches [(''id'', resolved_id w b)]) (snippets_tbl st)) +
               (if truthy_str (req_snippet_id b) then 0 else 1)"
proof (cases "truthy_str (req_snippet_id b)")
  case True
  let ?patch = "[(''title'', js_opt (req_title b)), (''language'', Str l),
                 (''code'', Str c), (''status'', Str ''pending'')]"
  let ?filters = "[(''id'', js_opt (req_snippet_id b)), (''owner'', Str u)]"
  let ?st1 = "(log_call SnippetUpdate st)
      \<lparr>snippets_tbl := update_rows ?patch ?filters (snippets_tbl st)\<rparr>"
  have "resolve_snippet w st u b c l = explain w ?st1 (resolved_id w b) b c l"
    using True assms
    by (simp add: resolve_snippet_def snippets_update_def Let_def resolved_id_def log_call_def)
  moreover have "quizzes_tbl ?st1 = quizzes_tbl st" "calls ?st1 = calls st @ [SnippetUpdate]"
    by (simp_all add: log_call_def)
  moreover have "length (filter (matches [(''id'', resolved_id w b)]) (snippets_tbl ?st1)) =
      length (filter (matches [(''id'', resolved_id w b)]) (snippets_tbl st))"
    by (simp add: filter_id_update_rows)
  ultimately show ?thesis using True by auto
next
  case False
  let ?vals = "[(''owner'', Str u), (''title'', Str (str_or (req_title b) ''Untitled'')),
                 (''language'', Str l), (''code'', Str c), (''status'', Str ''pending'')]"
  let ?r = "(''id'', Str (new_snippet_id w)) # apply_patch ?vals []"
  let ?st1 = "(log_call SnippetInsert st)\<lparr>snippets_tbl := snippets_tbl st @ [?r]\<rparr>"
  have "resolve_snippet w st u b c l = explain w ?st1 (resolved_id w b) b c l"
    using False assms
    by (simp add: resolve_snippet_def snippets_insert_def Let_def resolved_id_def log_call_def)
  moreover have "quizzes_tbl ?st1 = quizzes_tbl st" "calls ?st1 = calls st @ [SnippetInsert]"
    by (simp_all add: log_call_def)
  moreover have "length (filter (matches [(''id'', resolved_id w b)]) (snippets_tbl ?st1)) =
      length (filter (matches [(''id'', resolved_id w b)]) (snippets_tbl st)) + 1"
    using False by (simp add: resolved_id_def matches_def)
  ultimately show ?thesis using False by auto
qed

lemma update_single_failed:
  assumes "result_write w = Reports \<or>
           (result_write w = Succeeds \<and> length (filter (matches fs) (snippets_tbl st)) \<noteq> 1)"
  shows "snippets_update_single w patch fs st = (Failed, log_call ResultWrite st)"
  using assms
  by (auto simp add: snippets_update_single_def Let_def log_call_def split: list.splits)

lemma persist_failed:
  assumes "result_write w = Reports \<or>
           (result_write w = Succeeds \<and>
            length (filter (matches [(''id'', sid)]) (snippets_tbl st)) \<noteq> 1)"
  shows "persist w st sid llm =
           (if nullish llm then (Inl TypeError, st)
            else (in_memory_result sid llm, log_call ResultWrite st))"
proof (cases "nullish llm")
  case True
  then have "quiz_array llm = None"
    by (simp add: quiz_array_def js_get_nullish)
  with True show ?thesis
    by (simp add: persist_def persist_try_def result_members_eq in_memory_result_eq)
next
  case False
  show ?thesis
  proof (cases "quiz_array llm")
    case None
    with False show ?thesis
      by (simp add: persist_def persist_try_def result_members_eq
            update_single_failed [OF assms] in_memory_result_eq)
  next
    case (Some qs)
    with False show ?thesis
      by (simp add: persist_def persist_try_def result_members_eq
            update_single_failed [OF assms] in_memory_result_eq)
  qed
qed

lemma persist_success:
  assumes "result_write w = Succeeds"
    and "filter (matches [(''id'', sid)]) (snippets_tbl st) = [r]"
    and "\<not> nullish llm"
  shows "\<exists>st1 us. persist w st sid llm =
            (Inr (fst (quiz_replace w st1 sid llm us)), snd (quiz_replace w st1 sid llm us)) \<and>
          filter (matches [(''id'', sid)]) (snippets_tbl st1) = [us] \<and>
          us = apply_patch [(''explanation'', js_get llm ''explanation''),
                (''mermaid_diagram'', js_get llm ''mermaid''),
                (''trace_table'', js_get llm ''trace''), (''status'', Str ''ready'')] r"
proof -
  let ?patch = "[(''explanation'', js_get llm ''explanation''),
                (''mermaid_diagram'', js_get llm ''mermaid''),
                (''trace_table'', js_get llm ''trace''), (''status'', Str ''ready'')]"
  let ?st1 = "(log_call ResultWrite st)
      \<lparr>snippets_tbl := update_rows ?patch [(''id'', sid)] (snippets_tbl st)\<rparr>"
  have m: "matches [(''id'', sid)] r"
  proof -
    have "r \<in> set (filter (matches [(''id'', sid)]) (snippets_tbl st))"
      by (simp add: assms(2))
    then show ?thesis by simp
  qed
  have "persist w st sid llm =
      (Inr (fst (quiz_replace w ?st1 sid llm (apply_patch ?patch r))),
       snd (quiz_replace w ?st1 sid llm (apply_patch ?patch r)))"
    using assms
    by (simp add: persist_def persist_try_def result_members_eq snippets_update_single_def
          Let_def log_call_def case_prod_unfold)
  moreover have "filter (matches [(''id'', sid)]) (snippets_tbl ?st1) = [apply_patch ?patch r]"
    using assms(2) m by (simp add: filter_id_update_rows)
  ultimately show ?thesis by blast
qed

subsection \<open>The quizzes of the response\<close>

lemma quiz_replace_empty:
  assumes "quiz_array llm = None \<or> (\<exists>e. quiz_delete w = Throws e) \<or>
           (\<exists>e. quiz_insert w = Throws e)"
  shows "fst (quiz_replace w st sid llm us) =
           json_response 200 (Obj [(''snippet'', Obj us), (''quizzes'', Arr [])])"
  using assms
  by (auto simp add: quiz_replace_def quiz_replace_try_def quizzes_delete_def quizzes_insert_def
        Let_def insert_rows_eq split: fault.splits option.splits)

lemma quiz_replace_reports:
  assumes "quiz_array llm = Some qs" and "quiz_insert w = Reports"
    and "\<forall>e. quiz_delete w \<noteq> Throws e"
  shows "fst (quiz_replace w st sid llm us) =
           json_response 200
             (Obj [(''snippet'', Obj us),
                   (''quizzes'', Arr (map (temp_quiz sid) (enumerate 0 qs)))])"
  using assms
  by (auto simp add: quiz_replace_def quiz_replace_try_def quizzes_delete_def quizzes_insert_def
        Let_def insert_rows_eq temp_quizzes_eq split: fault.splits)

lemma quiz_replace_succeeds:
  assumes "quiz_array llm = Some qs" and "quiz_insert w = Succeeds"
    and "\<forall>e. quiz_delete w \<noteq> Throws e"
  shows "fst (quiz_replace w st sid llm us) =
           json_response 200
             (Obj [(''snippet'', Obj us),
                   (''quizzes'',
                    Arr (map Obj (map (stored_quiz w) (enumerate 0 (map (quiz_row sid) qs)))))])"
  using assms
  by (auto simp add: quiz_replace_def quiz_replace_try_def quizzes_delete_def quizzes_insert_def
        Let_def insert_rows_eq split: fault.splits)

lemma quiz_replace_snippet:
  "response_snippet (fst (quiz_replace w st sid llm us)) = Obj us"
  by (auto simp add: quiz_replace_def quiz_replace_try_def response_snippet_def
        json_response_def js_get_def bindE_Inr split: prod.splits sum.splits reply.splits)

subsection \<open>Bundles with their four parts\<close>

lemma patch_parts:
  assumes "has_bundle_parts llm"
  shows "has_result_parts
           (Obj (apply_patch [(''explanation'', js_get llm ''explanation''),
                   (''mermaid_diagram'', js_get llm ''mermaid''),
                   (''trace_table'', js_get llm ''trace''), (''status'', Str ''ready'')] r))"
proof -
  from assms have "js_get llm ''explanation'' \<noteq> Undefined" "js_get llm ''mermaid'' \<noteq> Undefined"
    "js_get llm ''trace'' \<noteq> Undefined"
    by (auto simp add: has_bundle_parts_def is_string_def is_object_def)
  with assms show ?thesis
    by (simp add: has_result_parts_def has_bundle_parts_def apply_patch_def set_col_def
          update_conv' js_get_def)
qed

lemma in_memory_parts:
  assumes "has_bundle_parts llm"
  shows "\<exists>r. in_memory_result sid llm = Inr r \<and> usable_content_body r"
proof -
  from assms obtain q qs where q: "quiz_array llm = Some (q # qs)"
    by (auto simp add: has_bundle_parts_def split: option.splits list.splits)
  from assms have "has_result_parts (in_memory_snippet sid llm)"
    by (simp add: has_bundle_parts_def has_result_parts_def in_memory_snippet_def js_get_def)
  with q show ?thesis
    by (simp add: in_memory_result_eq usable_content_body_def json_response_def
          snippet_status_def response_snippet_def response_quizzes_def js_get_def
          in_memory_snippet_def)
qed

lemma final_fallback_usable: "usable_content_body (final_fallback e)"
  by (simp add: final_fallback_def Let_def usable_content_body_def json_response_def
        snippet_status_def response_snippet_def response_quizzes_def js_get_def
        has_result_parts_def is_string_def is_object_def encode_trace_def
        generateFallbackResponse_def fallback_quizzes_def enumerate_eq_zip upt_rec)

subsection \<open>What the response carries\<close>

lemma persist_parts:
  assumes "has_bundle_parts llm"
  shows "\<exists>r st1. persist w st sid llm = (Inr r, st1) \<and> has_result_parts (response_snippet r) \<and>
           ((\<forall>e. quiz_delete w \<noteq> Throws e) \<and> (\<forall>e. quiz_insert w \<noteq> Throws e) \<longrightarrow>
              usable_content_body r)"
proof -
  let ?patch = "[(''explanation'', js_get llm ''explanation''),
                (''mermaid_diagram'', js_get llm ''mermaid''),
                (''trace_table'', js_get llm ''trace''), (''status'', Str ''ready'')]"
  from assms obtain q qs where q: "quiz_array llm = Some (q # qs)"
    by (auto simp add: has_bundle_parts_def split: option.splits list.splits)
  then have n: "\<not> nullish llm" by (rule quiz_array_not_nullish)
  have u: "usable_content_body r \<Longrightarrow> has_result_parts (response_snippet r)" for r
    by (simp add: usable_content_body_def)
  obtain rep st1 where s: "snippets_update_single w ?patch [(''id'', sid)] st = (rep, st1)"
    by (cases "snippets_update_single w ?patch [(''id'', sid)] st")
  show ?thesis
  proof (cases rep)
    case (Threw e)
    from in_memory_parts [OF assms, of "if truthy sid then sid else Str ''temp''"]
    obtain r where "in_memory_result (if truthy sid then sid else Str ''temp'') llm = Inr r"
      and "usable_content_body r" by blast
    with Threw s n show ?thesis
      by (auto simp add: persist_def persist_try_def result_members_eq u)
  next
    case Failed
    from in_memory_parts [OF assms, of sid]
    obtain r where "in_memory_result sid llm = Inr r" and "usable_content_body r" by blast
    with Failed s n show ?thesis
      by (auto simp add: persist_def persist_try_def result_members_eq u)
  next
    case (Returned us)
    with s obtain row where us: "us = apply_patch ?patch row"
      by (auto simp add: snippets_update_single_def Let_def split: fault.splits list.splits)
    let ?r = "fst (quiz_replace w st1 sid llm us)"
    have p: "persist w st sid llm = (Inr ?r, snd (quiz_replace w st1 sid llm us))"
      using Returned s n
      by (simp add: persist_def persist_try_def result_members_eq case_prod_unfold)
    have parts: "has_result_parts (response_snippet ?r)"
      by (simp add: quiz_replace_snippet us patch_parts [OF assms])
    have "map_of us ''status'' = Some (Str ''ready'')"
      unfolding us by (rule status_after_patch)
    from quiz_replace_content [OF this, of w st1 sid llm]
    have ready: "resp_status ?r = 200" "snippet_status ?r = Str ''ready''"
      by (simp_all add: ready_response_def)
    have "usable_content_body ?r"
      if t: "(\<forall>e. quiz_delete w \<noteq> Throws e) \<and> (\<forall>e. quiz_insert w \<noteq> Throws e)"
    proof (cases "quiz_insert w")
      case Succeeds
      from quiz_replace_succeeds [OF q Succeeds, of st1 sid us] t ready parts show ?thesis
        by (simp add: usable_content_body_def response_quizzes_def json_response_def js_get_def)
    next
      case Reports
      from quiz_replace_reports [OF q Reports, of st1 sid us] t ready parts show ?thesis
        by (simp add: usable_content_body_def response_quizzes_def json_response_def js_get_def)
    next
      case (Throws e)
      with t show ?thesis by simp
    qed
    with p parts show ?thesis by blast
  qed
qed

lemma resolve_throws:
  "snippet_upsert w = Throws e \<Longrightarrow> fst (resolve_snippet w st u b c l) = Inl e"
  by (simp add: resolve_snippet_def snippets_update_def snippets_insert_def Let_def)

subsection \<open>The concrete runs\<close>

lemma unshaped_gate:
  "passes_gate unshaped_world (demo_request sid) ''alice'' (demo_body sid)"
  by (simp add: passes_gate_def unshaped_world_def demo_world_def demo_request_def demo_body_def
        truthy_str_def str_or_def)

lemma demo_llm:
  "OPENAI_API_KEY w = None \<Longrightarrow>
     callLLM w (str_or (req_code (demo_body sid)) []) (str_or (req_language (demo_body sid)) [])
       (str_or (req_reading_level (demo_body sid)) ''cs1'') = encode_bundle (mock_response ''python'')"
  by (simp add: callLLM_def truthy_str_def demo_body_def str_or_def)

lemma unshaped_llm:
  "OPENAI_API_KEY w = Some ''sk-test'' \<Longrightarrow> fetch_reply w = empty_object_reply \<Longrightarrow>
   JSON_parse w = parse_empty_object \<Longrightarrow> callLLM w c l r = Obj []"
  by (simp add: callLLM_def callLLM_try_def truthy_str_def empty_object_reply_def llm_content_def
        parse_empty_object_def)

lemma mock_quiz_array:
  "quiz_array (encode_bundle (mock_response l)) =
     Some (map encode_quiz (quizzes (mock_response l)))"
  by (rule quiz_array_encode)

section \<open>The claims\<close>

subsection \<open>Failures of the model call\<close>

text \<open>
  Claim C1, as the code has it. With a model credential configured, whenever the external
  call fails, that is the request is rejected, the status is not a success, the body is
  not JSON, \<^verbatim>\<open>data.choices[0].message.content\<close> cannot be read, or
  \<^verbatim>\<open>JSON.parse\<close> rejects the content, \<^verbatim>\<open>callLLM\<close> returns the bundle
  of the heuristic generator for the same code, language and reading level. A content that
  parses is returned as parsed: its shape is not looked at.
\<close>

theorem callLLM_failure_falls_back:
  assumes "truthy_str (OPENAI_API_KEY w)"
  shows "(fetch_reply w = FetchRejects \<or>
          (\<exists>st body. fetch_reply w = Responds False st body) \<or>
          (\<exists>st. fetch_reply w = Responds True st None) \<or>
          (\<exists>st data e. fetch_reply w = Responds True st (Some data) \<and> llm_content data = Inl e) \<or>
          (\<exists>st data content. fetch_reply w = Responds True st (Some data) \<and>
              llm_content data = Inr content \<and> JSON_parse w content = None) \<longrightarrow>
            callLLM w code language readingLevel =
              encode_bundle (generateFallbackResponse code language readingLevel)) \<and>
         (\<forall>st data content v. fetch_reply w = Responds True st (Some data) \<and>
              llm_content data = Inr content \<and> JSON_parse w content = Some v \<longrightarrow>
            callLLM w code language readingLevel = v)"
  using assms by (auto simp add: callLLM_def callLLM_try_def)

text \<open>
  A status 500 falls back to the heuristic bundle; a reply whose content is the text
  \<^verbatim>\<open>{}\<close> is returned as the empty object.
\<close>

theorem callLLM_failure_falls_back_witness:
  "truthy_str (OPENAI_API_KEY (demo_world\<lparr>OPENAI_API_KEY := Some ''sk-test'',
       fetch_reply := Responds False 500 None\<rparr>)) \<and>
   callLLM (demo_world\<lparr>OPENAI_API_KEY := Some ''sk-test'', fetch_reply := Responds False 500 None\<rparr>)
       ''for i in range(10): print(i)'' ''python'' ''12'' =
     encode_bundle (generateFallbackResponse ''for i in range(10): print(i)'' ''python'' ''12'') \<and>
   llm_content (Obj [(''choices'', Arr [Obj [(''message'', Obj [(''content'', Str ''{}'')])]])]) =
     Inr (Str ''{}'') \<and>
   callLLM (demo_world\<lparr>OPENAI_API_KEY := Some ''sk-test'', fetch_reply := empty_object_reply,
       JSON_parse := parse_empty_object\<rparr>) ''for i in range(10): print(i)'' ''python'' ''12'' =
     Obj []"
proof -
  let ?w1 = "demo_world\<lparr>OPENAI_API_KEY := Some ''sk-test'', fetch_reply := Responds False 500 None\<rparr>"
  let ?w2 = "demo_world\<lparr>OPENAI_API_KEY := Some ''sk-test'', fetch_reply := empty_object_reply,
       JSON_parse := parse_empty_object\<rparr>"
  have k1: "truthy_str (OPENAI_API_KEY ?w1)" and k2: "truthy_str (OPENAI_API_KEY ?w2)"
    by (simp_all add: truthy_str_def)
  have f1: "fetch_reply ?w1 = Responds False 500 None" by simp
  have f2: "fetch_reply ?w2 =
      Responds True 200
        (Some (Obj [(''choices'', Arr [Obj [(''message'', Obj [(''content'', Str ''{}'')])]])]))"
    by (simp add: empty_object_reply_def)
  have c: "llm_content (Obj [(''choices'', Arr [Obj [(''message'', Obj [(''content'', Str ''{}'')])]])]) =
      Inr (Str ''{}'')"
    by (simp add: llm_content_def)
  have p: "JSON_parse ?w2 (Str ''{}'') = Some (Obj [])"
    by (simp add: parse_empty_object_def)
  from callLLM_failure_falls_back [OF k1, of "''for i in range(10): print(i)''" "''python''" "''12''"] f1
  have a: "callLLM ?w1 ''for i in range(10): print(i)'' ''python'' ''12'' =
      encode_bundle (generateFallbackResponse ''for i in range(10): print(i)'' ''python'' ''12'')"
    by blast
  from callLLM_failure_falls_back [OF k2, of "''for i in range(10): print(i)''" "''python''" "''12''"] f2 c p
  have b: "callLLM ?w2 ''for i in range(10): print(i)'' ''python'' ''12'' = Obj []"
    by blast
  from k1 a c b show ?thesis by blast
qed

text \<open>
  Claim C1 as stated fails on a reply whose content is JSON of another shape: the empty
  object has no quizzes, and it is what \<^verbatim>\<open>callLLM\<close> returns, not the heuristic
  bundle.
\<close>

theorem callLLM_unshaped_content_counterexample:
  "callLLM (demo_world\<lparr>OPENAI_API_KEY := Some ''sk-test'', fetch_reply := empty_object_reply,
       JSON_parse := parse_empty_object\<rparr>) ''for i in range(10): print(i)'' ''python'' ''12'' =
     Obj [] \<and>
   get_prop (Obj []) ''quizzes'' = Inr Undefined \<and>
   Obj [] \<noteq>
     encode_bundle (generateFallbackResponse ''for i in range(10): print(i)'' ''python'' ''12'')"
  by (simp add: callLLM_def callLLM_try_def demo_world_def truthy_str_def empty_object_reply_def
        llm_content_def parse_empty_object_def encode_bundle_def)

subsection \<open>Responses past the gate\<close>

text \<open>
  Claim C2, as the code has it. For a request that passes the authorization and
  validation checks, an error reported by the create-or-update of the snippet is answered
  with status 500. In every other case, whatever the model service and the later store
  requests do and whatever is thrown, the response has status 200, a snippet that reports
  ready and an array of quizzes. When the bundle in memory has its four parts, the snippet
  of the response carries an explanation, a diagram and a trace, and unless the delete or
  the insert of the quizzes throws the body is a usable content body, its array of quizzes
  not empty.
\<close>

theorem past_gate_status:
  assumes "passes_gate w rq userId b"
  shows "(snippet_upsert w = Reports \<longrightarrow> resp_status (fst (serve w st rq)) = 500) \<and>
         (snippet_upsert w \<noteq> Reports \<longrightarrow>
            resp_status (fst (serve w st rq)) = 200 \<and>
            snippet_status (fst (serve w st rq)) = Str ''ready'' \<and>
            is_array (response_quizzes (fst (serve w st rq))) \<and>
            (has_bundle_parts
               (callLLM w (str_or (req_code b) []) (str_or (req_language b) [])
                  (str_or (req_reading_level b) ''cs1'')) \<longrightarrow>
               has_result_parts (response_snippet (fst (serve w st rq))) \<and>
               ((\<forall>e. quiz_delete w \<noteq> Throws e) \<and> (\<forall>e. quiz_insert w \<noteq> Throws e) \<longrightarrow>
                  usable_content_body (fst (serve w st rq)))))"
proof -
  let ?c = "str_or (req_code b) []" and ?l = "str_or (req_language b) []"
  let ?llm = "callLLM w ?c ?l (str_or (req_reading_level b) ''cs1'')"
  let ?res = "resolve_snippet w st userId b ?c ?l"
  note s = serve_past_gate [OF assms, of st]
  have one: "resp_status (fst (serve w st rq)) = 500" if "snippet_upsert w = Reports"
  proof (cases ?res)
    case (Pair res st1)
    show ?thesis
    proof (cases res)
      case (Inl e)
      with Pair that show ?thesis by (auto dest: resolve_snippet_throws)
    next
      case (Inr r)
      with Pair that s show ?thesis by (auto dest: resolve_snippet_cases)
    qed
  qed
  have two: "ready_response (fst (serve w st rq))" if "snippet_upsert w \<noteq> Reports"
  proof (cases ?res)
    case (Pair res st1)
    show ?thesis
    proof (cases res)
      case (Inl e)
      with Pair s show ?thesis by (simp add: final_fallback_content)
    next
      case (Inr r)
      with Pair that s show ?thesis by (auto dest: resolve_snippet_cases)
    qed
  qed
  have three: "has_result_parts (response_snippet (fst (serve w st rq))) \<and>
      ((\<forall>e. quiz_delete w \<noteq> Throws e) \<and> (\<forall>e. quiz_insert w \<noteq> Throws e) \<longrightarrow>
         usable_content_body (fst (serve w st rq)))"
    if u: "snippet_upsert w \<noteq> Reports" and h: "has_bundle_parts ?llm"
  proof (cases "snippet_upsert w")
    case Succeeds
    from resolve_succeeds [OF Succeeds, of st userId b ?c ?l]
    obtain st1 where r: "?res = explain w st1 (resolved_id w b) b ?c ?l" by blast
    from persist_parts [OF h, of w st1 "resolved_id w b"]
    obtain r1 st2 where "persist w st1 (resolved_id w b) ?llm = (Inr r1, st2)"
      and "has_result_parts (response_snippet r1)"
      and "(\<forall>e. quiz_delete w \<noteq> Throws e) \<and> (\<forall>e. quiz_insert w \<noteq> Throws e) \<longrightarrow>
              usable_content_body r1"
      by blast
    then show ?thesis by (simp add: s r explain_def)
  next
    case Reports
    with u show ?thesis by simp
  next
    case (Throws e)
    from resolve_throws [OF Throws, of st userId b ?c ?l]
    have "fst (serve w st rq) = final_fallback e"
      by (cases ?res) (simp add: s)
    then show ?thesis
      using final_fallback_usable [of e] by (simp add: usable_content_body_def)
  qed
  from one two three show ?thesis
    by (auto simp add: ready_response_def)
qed

text \<open>
  A new snippet with the mock bundle and every store request going through, and an update
  whose first store request reports an error.
\<close>

theorem past_gate_status_witness:
  "passes_gate demo_world (demo_request None) ''alice'' (demo_body None) \<and>
   snippet_upsert demo_world \<noteq> Reports \<and>
   usable_content_body (fst (serve demo_world demo_store (demo_request None))) \<and>
   passes_gate (demo_world\<lparr>snippet_upsert := Reports\<rparr>) (demo_request (Some ''s1'')) ''alice''
     (demo_body (Some ''s1'')) \<and>
   resp_status (fst (serve (demo_world\<lparr>snippet_upsert := Reports\<rparr>) demo_store
     (demo_request (Some ''s1'')))) = 500"
proof -
  let ?b = "demo_body None"
  have g1: "passes_gate demo_world (demo_request None) ''alice'' ?b"
    by (rule demo_gate)
  have g2: "passes_gate (demo_world\<lparr>snippet_upsert := Reports\<rparr>) (demo_request (Some ''s1''))
      ''alice'' (demo_body (Some ''s1''))"
    using demo_gate [of "Some ''s1''"] by (simp add: passes_gate_def)
  have u1: "snippet_upsert demo_world \<noteq> Reports" by (simp add: demo_world_def)
  have u2: "snippet_upsert (demo_world\<lparr>snippet_upsert := Reports\<rparr>) = Reports" by simp
  have t: "(\<forall>e. quiz_delete demo_world \<noteq> Throws e) \<and> (\<forall>e. quiz_insert demo_world \<noteq> Throws e)"
    by (simp add: demo_world_def)
  have "callLLM demo_world (str_or (req_code ?b) []) (str_or (req_language ?b) [])
      (str_or (req_reading_level ?b) ''cs1'') = encode_bundle (mock_response ''python'')"
    by (rule demo_llm) (simp add: demo_world_def)
  moreover have "has_bundle_parts (encode_bundle (mock_response ''python''))"
    by (rule has_bundle_parts_encode) (simp add: mock_response_def)
  ultimately have h: "has_bundle_parts (callLLM demo_world (str_or (req_code ?b) [])
      (str_or (req_language ?b) []) (str_or (req_reading_level ?b) ''cs1''))"
    by simp
  from past_gate_status [OF g1, of demo_store] u1 h t
  have a: "usable_content_body (fst (serve demo_world demo_store (demo_request None)))"
    by blast
  from past_gate_status [OF g2, of demo_store] u2
  have b: "resp_status (fst (serve (demo_world\<lparr>snippet_upsert := Reports\<rparr>) demo_store
     (demo_request (Some ''s1'')))) = 500"
    by blast
  from g1 g2 u1 a b show ?thesis by blast
qed

text \<open>
  Claim C2 as stated fails in two ways. When the insert of a new snippet reports an error,
  the request passed the checks and the response is the error with status 500. When the
  reply of the model service is the empty object, no request fails and the response has
  status 200, with the row of the snippet, which has no explanation, diagram or trace, and
  an empty list of quizzes.
\<close>

theorem past_gate_error_and_empty_body_counterexample:
  "passes_gate (demo_world\<lparr>snippet_upsert := Reports\<rparr>) (demo_request None) ''alice''
     (demo_body None) \<and>
   fst (serve (demo_world\<lparr>snippet_upsert := Reports\<rparr>) demo_store (demo_request None)) =
     \<lparr> resp_status = 500, resp_body = Some (Obj [(''error'', Str ''Failed to create snippet'')]) \<rparr> \<and>
   passes_gate unshaped_world (demo_request None) ''alice'' (demo_body None) \<and>
   fst (serve unshaped_world demo_store (demo_request None)) =
     json_response 200
       (Obj [(''snippet'',
              Obj [(''id'', Str ''s2''), (''owner'', Str ''alice''), (''title'', Str ''Untitled''),
                   (''language'', Str ''python''),
                   (''code'', Str ''for i in range(10): print(i)''),
                   (''status'', Str ''ready'')]),
             (''quizzes'', Arr [])]) \<and>
   \<not> usable_content_body (fst (serve unshaped_world demo_store (demo_request None)))"
proof -
  have "passes_gate (demo_world\<lparr>snippet_upsert := Reports\<rparr>) (demo_request None) ''alice''
     (demo_body None)"
    using demo_gate [of None] by (simp add: passes_gate_def)
  moreover have "fst (serve (demo_world\<lparr>snippet_upsert := Reports\<rparr>) demo_store (demo_request None)) =
     \<lparr> resp_status = 500, resp_body = Some (Obj [(''error'', Str ''Failed to create snippet'')]) \<rparr>"
    by code_simp
  moreover have r: "fst (serve unshaped_world demo_store (demo_request None)) =
     json_response 200
       (Obj [(''snippet'',
              Obj [(''id'', Str ''s2''), (''owner'', Str ''alice''), (''title'', Str ''Untitled''),
                   (''language'', Str ''python''),
                   (''code'', Str ''for i in range(10): print(i)''),
                   (''status'', Str ''ready'')]),
             (''quizzes'', Arr [])])"
    by code_simp
  moreover have "\<not> usable_content_body (fst (serve unshaped_world demo_store (demo_request None)))"
    unfolding r
    by (simp add: usable_content_body_def json_response_def response_quizzes_def js_get_def)
  ultimately show ?thesis
    using unshaped_gate [of None] by blast
qed

subsection \<open>A failed result write\<close>

text \<open>
  Claim C3, as the code has it. The request passes the checks, the snippet is created or
  updated, and the result write fails: the store reports an error, or the update does not
  select exactly one row. Then the quizzes table is as before and no request on it was
  sent. When the quizzes of the bundle in memory can be read, the response is built from
  that bundle, with one quiz per quiz of the bundle under the identifiers
  \<^verbatim>\<open>temp_0\<close>, \<^verbatim>\<open>temp_1\<close>, ..., which are pairwise distinct: three of
  them for three quizzes. When they cannot be read, the outer \<^verbatim>\<open>catch\<close> answers
  instead, under the identifiers \<^verbatim>\<open>fallback_0\<close>, \<^verbatim>\<open>fallback_1\<close>,
  \<^verbatim>\<open>fallback_2\<close>.
\<close>

theorem result_write_failure_response:
  assumes "passes_gate w rq userId b"
    and "snippet_upsert w = Succeeds"
    and "result_write w = Reports \<or>
         (result_write w = Succeeds \<and>
          length (filter (matches [(''id'', resolved_id w b)]) (snippets_tbl st)) \<noteq>
            (if truthy_str (req_snippet_id b) then 1 else 0))"
  shows "quizzes_tbl (snd (serve w st rq)) = quizzes_tbl st \<and>
         (\<exists>cs. calls (snd (serve w st rq)) = calls st @ cs \<and>
               set cs \<subseteq> {SnippetUpdate, SnippetInsert, ResultWrite}) \<and>
         (\<forall>qs. quiz_array (callLLM w (str_or (req_code b) []) (str_or (req_language b) [])
                   (str_or (req_reading_level b) ''cs1'')) = Some qs \<longrightarrow>
            fst (serve w st rq) =
              json_response 200
                (Obj [(''snippet'',
                       in_memory_snippet (resolved_id w b)
                         (callLLM w (str_or (req_code b) []) (str_or (req_language b) [])
                            (str_or (req_reading_level b) ''cs1''))),
                      (''quizzes'',
                       Arr (map (temp_quiz (resolved_id w b)) (enumerate 0 qs)))]) \<and>
            quiz_ids (fst (serve w st rq)) =
              map (\<lambda>i. Str (''temp_'' @ string_of_nat i)) [0..<length qs] \<and>
            distinct (quiz_ids (fst (serve w st rq))) \<and>
            (length qs = 3 \<longrightarrow>
               quiz_ids (fst (serve w st rq)) = [Str ''temp_0'', Str ''temp_1'', Str ''temp_2''])) \<and>
         (quiz_array (callLLM w (str_or (req_code b) []) (str_or (req_language b) [])
                   (str_or (req_reading_level b) ''cs1'')) = None \<longrightarrow>
            quiz_ids (fst (serve w st rq)) =
              [Str ''fallback_0'', Str ''fallback_1'', Str ''fallback_2''])"
proof -
  let ?c = "str_or (req_code b) []" and ?l = "str_or (req_language b) []"
  let ?sid = "resolved_id w b"
  let ?llm = "callLLM w ?c ?l (str_or (req_reading_level b) ''cs1'')"
  from resolve_succeeds [OF assms(2), of st userId b ?c ?l]
  obtain st1 where r: "resolve_snippet w st userId b ?c ?l = explain w st1 ?sid b ?c ?l"
    and q: "quizzes_tbl st1 = quizzes_tbl st"
    and c: "calls st1 = calls st @ [if truthy_str (req_snippet_id b) then SnippetUpdate
                                    else SnippetInsert]"
    and n: "length (filter (matches [(''id'', ?sid)]) (snippets_tbl st1)) =
             length (filter (matches [(''id'', ?sid)]) (snippets_tbl st)) +
               (if truthy_str (req_snippet_id b) then 0 else 1)"
    by blast
  from assms(3) n have f: "result_write w = Reports \<or>
      (result_write w = Succeeds \<and>
       length (filter (matches [(''id'', ?sid)]) (snippets_tbl st1)) \<noteq> 1)"
    by (auto split: if_splits)
  note p = persist_failed [OF f, of ?llm]
  have s: "serve w st rq =
      (case persist w st1 ?sid ?llm of
         (Inr r, st2) \<Rightarrow> (r, st2) | (Inl e, st2) \<Rightarrow> (final_fallback e, st2))"
    by (simp add: serve_past_gate [OF assms(1)] r explain_def)
  then have sn: "snd (serve w st rq) = snd (persist w st1 ?sid ?llm)"
    by (simp split: prod.splits sum.splits)
  from p have "snd (persist w st1 ?sid ?llm) = st1 \<or>
      snd (persist w st1 ?sid ?llm) = log_call ResultWrite st1"
    by (simp split: if_splits)
  with q c sn have one: "quizzes_tbl (snd (serve w st rq)) = quizzes_tbl st"
    and two: "\<exists>cs. calls (snd (serve w st rq)) = calls st @ cs \<and>
               set cs \<subseteq> {SnippetUpdate, SnippetInsert, ResultWrite}"
    by (auto simp add: log_call_def)
  have three: "fst (serve w st rq) =
        json_response 200
          (Obj [(''snippet'', in_memory_snippet ?sid ?llm),
                (''quizzes'', Arr (map (temp_quiz ?sid) (enumerate 0 qs)))])"
    if "quiz_array ?llm = Some qs" for qs
    using that quiz_array_not_nullish [OF that]
    by (simp add: s p in_memory_result_eq)
  have ids: "quiz_ids (fst (serve w st rq)) =
        map (\<lambda>i. Str (''temp_'' @ string_of_nat i)) [0..<length qs]"
    if "quiz_array ?llm = Some qs" for qs
    using temp_quiz_ids [of ?sid 0 qs]
    by (simp add: three [OF that] quiz_ids_def response_quizzes_def json_response_def js_get_def)
  have four: "quiz_ids (fst (serve w st rq)) =
        [Str ''fallback_0'', Str ''fallback_1'', Str ''fallback_2'']"
    if "quiz_array ?llm = None"
  proof -
    from that have "fst (persist w st1 ?sid ?llm) = Inl TypeError"
      by (simp add: p in_memory_result_eq)
    then have "fst (serve w st rq) = final_fallback TypeError"
      by (cases "persist w st1 ?sid ?llm") (simp add: s)
    then show ?thesis by (simp add: final_fallback_ids)
  qed
  from one two three ids four show ?thesis
    using temp_ids_distinct [of "''temp_''"] temp_ids_three
    by auto
qed

text \<open>
  The mock bundle with a result write that reports an error, the mock bundle with an
  identifier that no snippet has, and the empty object with a result write that reports an
  error.
\<close>

theorem result_write_failure_response_witness:
  "passes_gate (demo_world\<lparr>result_write := Reports\<rparr>) (demo_request None) ''alice''
     (demo_body None) \<and>
   snippet_upsert (demo_world\<lparr>result_write := Reports\<rparr>) = Succeeds \<and>
   result_write (demo_world\<lparr>result_write := Reports\<rparr>) = Reports \<and>
   quizzes_tbl (snd (serve (demo_world\<lparr>result_write := Reports\<rparr>) demo_store
     (demo_request None))) = quizzes_tbl demo_store \<and>
   quiz_ids (fst (serve (demo_world\<lparr>result_write := Reports\<rparr>) demo_store (demo_request None))) =
     [Str ''temp_0'', Str ''temp_1'', Str ''temp_2''] \<and>
   result_write demo_world = Succeeds \<and>
   filter (matches [(''id'', Str ''s0'')]) (snippets_tbl demo_store) = [] \<and>
   quiz_ids (fst (serve demo_world demo_store (demo_request (Some ''s0'')))) =
     [Str ''temp_0'', Str ''temp_1'', Str ''temp_2''] \<and>
   quiz_ids (fst (serve (unshaped_world\<lparr>result_write := Reports\<rparr>) demo_store
     (demo_request None))) = [Str ''fallback_0'', Str ''fallback_1'', Str ''fallback_2'']"
proof -
  let ?w1 = "demo_world\<lparr>result_write := Reports\<rparr>"
  let ?w3 = "unshaped_world\<lparr>result_write := Reports\<rparr>"
  let ?b = "demo_body None" and ?bz = "demo_body (Some ''s0'')"
  have g1: "passes_gate ?w1 (demo_request None) ''alice'' ?b"
    using demo_gate [of None] by (simp add: passes_gate_def)
  have g2: "passes_gate demo_world (demo_request (Some ''s0'')) ''alice'' ?bz"
    by (rule demo_gate)
  have g3: "passes_gate ?w3 (demo_request None) ''alice'' ?b"
    using unshaped_gate [of None] by (simp add: passes_gate_def)
  have u: "snippet_upsert ?w1 = Succeeds" "snippet_upsert demo_world = Succeeds"
    "snippet_upsert ?w3 = Succeeds"
    by (simp_all add: demo_world_def unshaped_world_def)
  have r1: "result_write ?w1 = Reports" and r3: "result_write ?w3 = Reports" by simp_all
  have r2: "result_write demo_world = Succeeds" by (simp add: demo_world_def)
  have e: "filter (matches [(''id'', Str ''s0'')]) (snippets_tbl demo_store) = []"
    by (simp add: demo_store_def bobs_snippet_def matches_def)
  have f1: "result_write ?w1 = Reports \<or>
      (result_write ?w1 = Succeeds \<and>
       length (filter (matches [(''id'', resolved_id ?w1 ?b)]) (snippets_tbl demo_store)) \<noteq>
         (if truthy_str (req_snippet_id ?b) then 1 else 0))"
    using r1 by blast
  have f3: "result_write ?w3 = Reports \<or>
      (result_write ?w3 = Succeeds \<and>
       length (filter (matches [(''id'', resolved_id ?w3 ?b)]) (snippets_tbl demo_store)) \<noteq>
         (if truthy_str (req_snippet_id ?b) then 1 else 0))"
    using r3 by blast
  have i: "resolved_id demo_world ?bz = Str ''s0''" "truthy_str (req_snippet_id ?bz)"
    by (simp_all add: resolved_id_def demo_body_def truthy_str_def js_opt_def)
  have f2: "result_write demo_world = Reports \<or>
      (result_write demo_world = Succeeds \<and>
       length (filter (matches [(''id'', resolved_id demo_world ?bz)]) (snippets_tbl demo_store)) \<noteq>
         (if truthy_str (req_snippet_id ?bz) then 1 else 0))"
    using r2 by (simp add: i e)
  have l1: "callLLM ?w1 (str_or (req_code ?b) []) (str_or (req_language ?b) [])
      (str_or (req_reading_level ?b) ''cs1'') = encode_bundle (mock_response ''python'')"
    by (rule demo_llm) (simp add: demo_world_def)
  have l2: "callLLM demo_world (str_or (req_code ?bz) []) (str_or (req_language ?bz) [])
      (str_or (req_reading_level ?bz) ''cs1'') = encode_bundle (mock_response ''python'')"
    by (rule demo_llm) (simp add: demo_world_def)
  have l3: "callLLM ?w3 (str_or (req_code ?b) []) (str_or (req_language ?b) [])
      (str_or (req_reading_level ?b) ''cs1'') = Obj []"
    by (rule unshaped_llm) (simp_all add: unshaped_world_def)
  have n: "length (map encode_quiz (quizzes (mock_response ''python''))) = 3"
    by (simp add: mock_response_def)
  have z: "quiz_array (Obj []) = None"
    by (simp add: quiz_array_def js_get_def)
  note t1 = result_write_failure_response [OF g1 u(1) f1]
  note t2 = result_write_failure_response [OF g2 u(2) f2]
  note t3 = result_write_failure_response [OF g3 u(3) f3]
  from t1 have a: "quizzes_tbl (snd (serve ?w1 demo_store (demo_request None))) =
      quizzes_tbl demo_store"
    by blast
  from t1 n have b: "quiz_ids (fst (serve ?w1 demo_store (demo_request None))) =
     [Str ''temp_0'', Str ''temp_1'', Str ''temp_2'']"
    unfolding l1 mock_quiz_array by blast
  from t2 n have c: "quiz_ids (fst (serve demo_world demo_store (demo_request (Some ''s0'')))) =
     [Str ''temp_0'', Str ''temp_1'', Str ''temp_2'']"
    unfolding l2 mock_quiz_array by blast
  from t3 z have d: "quiz_ids (fst (serve ?w3 demo_store (demo_request None))) =
     [Str ''fallback_0'', Str ''fallback_1'', Str ''fallback_2'']"
    unfolding l3 by blast
  from g1 u(1) r1 a b r2 e c d show ?thesis by blast
qed

text \<open>
  Claim C3 as stated fails when the reply of the model service is the empty object: the
  result write reports an error, reading the quizzes throws in the handler of that error
  and again in \<^verbatim>\<open>catch (dbError)\<close>, and the response is the last one, whose
  identifiers follow \<^verbatim>\<open>fallback_<index>\<close>.
\<close>

theorem result_write_failure_unshaped_counterexample:
  "passes_gate (unshaped_world\<lparr>result_write := Reports\<rparr>) (demo_request None) ''alice''
     (demo_body None) \<and>
   snippet_upsert (unshaped_world\<lparr>result_write := Reports\<rparr>) = Succeeds \<and>
   result_write (unshaped_world\<lparr>result_write := Reports\<rparr>) = Reports \<and>
   callLLM (unshaped_world\<lparr>result_write := Reports\<rparr>) ''for i in range(10): print(i)''
     ''python'' ''12'' = Obj [] \<and>
   calls (snd (serve (unshaped_world\<lparr>result_write := Reports\<rparr>) demo_store (demo_request None))) =
     [SnippetInsert, ResultWrite] \<and>
   quiz_ids (fst (serve (unshaped_world\<lparr>result_write := Reports\<rparr>) demo_store
     (demo_request None))) = [Str ''fallback_0'', Str ''fallback_1'', Str ''fallback_2''] \<and>
   js_get (response_snippet (fst (serve (unshaped_world\<lparr>result_write := Reports\<rparr>) demo_store
     (demo_request None)))) ''id'' = Str ''fallback''"
proof -
  let ?w = "unshaped_world\<lparr>result_write := Reports\<rparr>"
  have "passes_gate ?w (demo_request None) ''alice'' (demo_body None)"
    using unshaped_gate [of None] by (simp add: passes_gate_def)
  moreover have "snippet_upsert ?w = Succeeds"
    by (simp add: unshaped_world_def demo_world_def)
  moreover have "result_write ?w = Reports" by simp
  moreover have "callLLM ?w ''for i in range(10): print(i)'' ''python'' ''12'' = Obj []"
    by (rule unshaped_llm) (simp_all add: unshaped_world_def)
  moreover have "calls (snd (serve ?w demo_store (demo_request None))) =
     [SnippetInsert, ResultWrite]"
    by code_simp
  moreover have "quiz_ids (fst (serve ?w demo_store (demo_request None))) =
      [Str ''fallback_0'', Str ''fallback_1'', Str ''fallback_2'']"
    by code_simp
  moreover have "js_get (response_snippet (fst (serve ?w demo_store (demo_request None)))) ''id'' =
      Str ''fallback''"
    by code_simp
  ultimately show ?thesis by blast
qed

subsection \<open>A failed quiz replacement\<close>

text \<open>
  Claim C4, as the code has it. The request passes the checks, the snippet is created or
  updated, and the result write is sent (the bundle is neither \<^verbatim>\<open>null\<close> nor
  \<^verbatim>\<open>undefined\<close>) and goes through on the one row under the snippet's identifier.
  Then the response has status 200 and carries the snippet as the result write left it in
  the store. When the insert of the quizzes reports an error (and the delete did not
  throw) and the quizzes of the bundle can be read, it carries them under temporary
  identifiers. When they cannot be read, so that building the rows throws, or when the
  delete or the insert throws, it carries an empty list of quizzes.
\<close>

theorem quiz_replace_failure_response:
  assumes "passes_gate w rq userId b"
    and "snippet_upsert w = Succeeds"
    and "result_write w = Succeeds"
    and "length (filter (matches [(''id'', resolved_id w b)]) (snippets_tbl st)) =
           (if truthy_str (req_snippet_id b) then 1 else 0)"
    and "\<not> nullish (callLLM w (str_or (req_code b) []) (str_or (req_language b) [])
           (str_or (req_reading_level b) ''cs1''))"
  shows "resp_status (fst (serve w st rq)) = 200 \<and>
         snippet_status (fst (serve w st rq)) = Str ''ready'' \<and>
         map Obj (filter (matches [(''id'', resolved_id w b)])
                    (snippets_tbl (snd (serve w st rq)))) =
           [response_snippet (fst (serve w st rq))] \<and>
         (\<forall>qs. quiz_array (callLLM w (str_or (req_code b) []) (str_or (req_language b) [])
                   (str_or (req_reading_level b) ''cs1'')) = Some qs \<and>
               quiz_insert w = Reports \<and> (\<forall>e. quiz_delete w \<noteq> Throws e) \<longrightarrow>
            response_quizzes (fst (serve w st rq)) =
              Arr (map (temp_quiz (resolved_id w b)) (enumerate 0 qs))) \<and>
         (quiz_array (callLLM w (str_or (req_code b) []) (str_or (req_language b) [])
                   (str_or (req_reading_level b) ''cs1'')) = None \<or>
          (\<exists>e. quiz_delete w = Throws e) \<or> (\<exists>e. quiz_insert w = Throws e) \<longrightarrow>
            response_quizzes (fst (serve w st rq)) = Arr [])"
proof -
  let ?c = "str_or (req_code b) []" and ?l = "str_or (req_language b) []"
  let ?sid = "resolved_id w b"
  let ?llm = "callLLM w ?c ?l (str_or (req_reading_level b) ''cs1'')"
  from resolve_succeeds [OF assms(2), of st userId b ?c ?l]
  obtain st1 where r: "resolve_snippet w st userId b ?c ?l = explain w st1 ?sid b ?c ?l"
    and n: "length (filter (matches [(''id'', ?sid)]) (snippets_tbl st1)) =
             length (filter (matches [(''id'', ?sid)]) (snippets_tbl st)) +
               (if truthy_str (req_snippet_id b) then 0 else 1)"
    by blast
  from n assms(4) have "length (filter (matches [(''id'', ?sid)]) (snippets_tbl st1)) = 1"
    by (simp split: if_splits)
  then obtain row where f: "filter (matches [(''id'', ?sid)]) (snippets_tbl st1) = [row]"
    by (auto simp add: length_Suc_conv)
  from persist_success [OF assms(3) f assms(5)]
  obtain st2 us where p: "persist w st1 ?sid ?llm =
            (Inr (fst (quiz_replace w st2 ?sid ?llm us)), snd (quiz_replace w st2 ?sid ?llm us))"
    and f2: "filter (matches [(''id'', ?sid)]) (snippets_tbl st2) = [us]"
    and us: "us = apply_patch [(''explanation'', js_get ?llm ''explanation''),
                (''mermaid_diagram'', js_get ?llm ''mermaid''),
                (''trace_table'', js_get ?llm ''trace''), (''status'', Str ''ready'')] row"
    by blast
  let ?q = "quiz_replace w st2 ?sid ?llm us"
  have s: "serve w st rq = ?q"
    by (simp add: serve_past_gate [OF assms(1)] r explain_def p)
  have "map_of us ''status'' = Some (Str ''ready'')"
    unfolding us by (rule status_after_patch)
  from quiz_replace_content [OF this, of w st2 ?sid ?llm]
  have one: "resp_status (fst (serve w st rq)) = 200"
    and two: "snippet_status (fst (serve w st rq)) = Str ''ready''"
    by (simp_all add: s ready_response_def)
  have three: "map Obj (filter (matches [(''id'', ?sid)]) (snippets_tbl (snd (serve w st rq)))) =
           [response_snippet (fst (serve w st rq))]"
    by (simp add: s quiz_replace_snippets f2 quiz_replace_snippet)
  have four: "response_quizzes (fst (serve w st rq)) =
              Arr (map (temp_quiz ?sid) (enumerate 0 qs))"
    if "quiz_array ?llm = Some qs \<and> quiz_insert w = Reports \<and> (\<forall>e. quiz_delete w \<noteq> Throws e)"
    for qs
    using quiz_replace_reports [of ?llm qs w st2 ?sid us] that
    by (simp add: s response_quizzes_def json_response_def js_get_def)
  have five: "response_quizzes (fst (serve w st rq)) = Arr []"
    if "quiz_array ?llm = None \<or> (\<exists>e. quiz_delete w = Throws e) \<or>
        (\<exists>e. quiz_insert w = Throws e)"
    using quiz_replace_empty [OF that, of st2 ?sid us]
    by (simp add: s response_quizzes_def json_response_def js_get_def)
  from one two three four five show ?thesis by blast
qed

text \<open>
  A new snippet: the mock bundle with an insert of the quizzes that reports an error and
  with one that throws, and the empty object.
\<close>

theorem quiz_replace_failure_response_witness:
  "passes_gate (demo_world\<lparr>quiz_insert := Reports\<rparr>) (demo_request None) ''alice''
     (demo_body None) \<and>
   result_write (demo_world\<lparr>quiz_insert := Reports\<rparr>) = Succeeds \<and>
   filter (matches [(''id'', Str ''s2'')]) (snippets_tbl demo_store) = [] \<and>
   quiz_ids (fst (serve (demo_world\<lparr>quiz_insert := Reports\<rparr>) demo_store
     (demo_request None))) = [Str ''temp_0'', Str ''temp_1'', Str ''temp_2''] \<and>
   response_quizzes (fst (serve (demo_world\<lparr>quiz_insert := Throws TypeError\<rparr>) demo_store
     (demo_request None))) = Arr [] \<and>
   response_quizzes (fst (serve unshaped_world demo_store (demo_request None))) = Arr []"
proof -
  let ?w1 = "demo_world\<lparr>quiz_insert := Throws TypeError\<rparr>"
  let ?w2 = "demo_world\<lparr>quiz_insert := Reports\<rparr>"
  let ?w3 = "unshaped_world"
  let ?b = "demo_body None"
  have g: "passes_gate ?w1 (demo_request None) ''alice'' ?b"
    "passes_gate ?w2 (demo_request None) ''alice'' ?b"
    using demo_gate [of None] by (simp_all add: passes_gate_def)
  have g3: "passes_gate ?w3 (demo_request None) ''alice'' ?b"
    by (rule unshaped_gate)
  have u: "snippet_upsert ?w1 = Succeeds" "snippet_upsert ?w2 = Succeeds"
    "snippet_upsert ?w3 = Succeeds"
    and r: "result_write ?w1 = Succeeds" "result_write ?w2 = Succeeds"
    "result_write ?w3 = Succeeds"
    by (simp_all add: demo_world_def unshaped_world_def)
  have i: "resolved_id ?w1 ?b = Str ''s2''" "resolved_id ?w2 ?b = Str ''s2''"
    "resolved_id ?w3 ?b = Str ''s2''"
    by (simp_all add: resolved_id_def demo_body_def demo_world_def unshaped_world_def
          truthy_str_def)
  have e: "filter (matches [(''id'', Str ''s2'')]) (snippets_tbl demo_store) = []"
    by (simp add: demo_store_def bobs_snippet_def matches_def)
  have n: "\<not> truthy_str (req_snippet_id ?b)"
    by (simp add: demo_body_def truthy_str_def)
  have f: "length (filter (matches [(''id'', resolved_id ?w1 ?b)]) (snippets_tbl demo_store)) =
        (if truthy_str (req_snippet_id ?b) then 1 else 0)"
    "length (filter (matches [(''id'', resolved_id ?w2 ?b)]) (snippets_tbl demo_store)) =
        (if truthy_str (req_snippet_id ?b) then 1 else 0)"
    "length (filter (matches [(''id'', resolved_id ?w3 ?b)]) (snippets_tbl demo_store)) =
        (if truthy_str (req_snippet_id ?b) then 1 else 0)"
    using n by (simp_all only: i e) simp_all
  have l1: "callLLM ?w1 (str_or (req_code ?b) []) (str_or (req_language ?b) [])
      (str_or (req_reading_level ?b) ''cs1'') = encode_bundle (mock_response ''python'')"
    and l2: "callLLM ?w2 (str_or (req_code ?b) []) (str_or (req_language ?b) [])
      (str_or (req_reading_level ?b) ''cs1'') = encode_bundle (mock_response ''python'')"
    by (rule demo_llm, simp add: demo_world_def)+
  have l3: "callLLM ?w3 (str_or (req_code ?b) []) (str_or (req_language ?b) [])
      (str_or (req_reading_level ?b) ''cs1'') = Obj []"
    by (rule unshaped_llm) (simp_all add: unshaped_world_def)
  have nn: "\<not> nullish (encode_bundle (mock_response ''python''))" "\<not> nullish (Obj [])"
    by (simp_all add: nullish_def encode_bundle_def)
  have z: "quiz_array (Obj []) = None"
    by (simp add: quiz_array_def js_get_def)
  have q1: "\<exists>e. quiz_insert ?w1 = Throws e" by simp
  have q2: "quiz_insert ?w2 = Reports \<and> (\<forall>e. quiz_delete ?w2 \<noteq> Throws e)"
    by (simp add: demo_world_def)
  from quiz_replace_failure_response [OF g(1) u(1) r(1) f(1)] nn(1) q1
  have a: "response_quizzes (fst (serve ?w1 demo_store (demo_request None))) = Arr []"
    unfolding l1 by blast
  from quiz_replace_failure_response [OF g(2) u(2) r(2) f(2)] nn(1) q2
  have "response_quizzes (fst (serve ?w2 demo_store (demo_request None))) =
      Arr (map (temp_quiz (resolved_id ?w2 ?b))
             (enumerate 0 (map encode_quiz (quizzes (mock_response ''python'')))))"
    unfolding l2 mock_quiz_array by blast
  then have "quiz_ids (fst (serve ?w2 demo_store (demo_request None))) =
      map (\<lambda>q. js_get q ''id'')
        (map (temp_quiz (Str ''s2''))
           (enumerate 0 (map encode_quiz (quizzes (mock_response ''python'')))))"
    by (simp add: quiz_ids_def i)
  also have "\<dots> = map (\<lambda>i. Str (''temp_'' @ string_of_nat i))
      [0..<0 + length (map encode_quiz (quizzes (mock_response ''python'')))]"
    by (rule temp_quiz_ids)
  also have "length (map encode_quiz (quizzes (mock_response ''python''))) = 3"
    by (simp add: mock_response_def)
  finally have b: "quiz_ids (fst (serve ?w2 demo_store (demo_request None))) =
      [Str ''temp_0'', Str ''temp_1'', Str ''temp_2'']"
    using temp_ids_three by simp
  from quiz_replace_failure_response [OF g3 u(3) r(3) f(3)] nn(2) z
  have c: "response_quizzes (fst (serve ?w3 demo_store (demo_request None))) = Arr []"
    unfolding l3 by blast
  from g(2) r(2) e a b c show ?thesis by blast
qed

text \<open>
  Claim C4 as stated fails when the reply of the model service is the empty object: the
  result write goes through, the delete is sent, building the rows throws, and the handler
  answers 200 with an empty list of quizzes. It does the same for the mock bundle when the
  insert of the quizzes throws.
\<close>

theorem quiz_replace_empty_quizzes_counterexample:
  "passes_gate (unshaped_world\<lparr>quiz_insert := Reports\<rparr>) (demo_request None) ''alice''
     (demo_body None) \<and>
   calls (snd (serve (unshaped_world\<lparr>quiz_insert := Reports\<rparr>) demo_store (demo_request None))) =
     [SnippetInsert, ResultWrite, QuizDelete] \<and>
   resp_status (fst (serve (unshaped_world\<lparr>quiz_insert := Reports\<rparr>) demo_store
     (demo_request None))) = 200 \<and>
   response_quizzes (fst (serve (unshaped_world\<lparr>quiz_insert := Reports\<rparr>) demo_store
     (demo_request None))) = Arr [] \<and>
   calls (snd (serve (demo_world\<lparr>quiz_insert := Throws TypeError\<rparr>) demo_store (demo_request None))) =
     [SnippetInsert, ResultWrite, QuizDelete, QuizInsert] \<and>
   response_quizzes (fst (serve (demo_world\<lparr>quiz_insert := Throws TypeError\<rparr>) demo_store
     (demo_request None))) = Arr []"
proof -
  let ?w = "unshaped_world\<lparr>quiz_insert := Reports\<rparr>"
  let ?v = "demo_world\<lparr>quiz_insert := Throws TypeError\<rparr>"
  have "passes_gate ?w (demo_request None) ''alice'' (demo_body None)"
    using unshaped_gate [of None] by (simp add: passes_gate_def)
  moreover have "calls (snd (serve ?w demo_store (demo_request None))) =
     [SnippetInsert, ResultWrite, QuizDelete]"
    by code_simp
  moreover have "resp_status (fst (serve ?w demo_store (demo_request None))) = 200"
    by code_simp
  moreover have "response_quizzes (fst (serve ?w demo_store (demo_request None))) = Arr []"
    by code_simp
  moreover have "calls (snd (serve ?v demo_store (demo_request None))) =
     [SnippetInsert, ResultWrite, QuizDelete, QuizInsert]"
    by code_simp
  moreover have "response_quizzes (fst (serve ?v demo_store (demo_request None))) = Arr []"
    by code_simp
  ultimately show ?thesis by blast
qed

subsection \<open>Snippets of another owner\<close>

text \<open>
  Claim C5 does not hold of the code. Alice sends Bob's snippet identifier. The first
  update is filtered by owner and selects nothing, but the result write and the quiz
  replacement are filtered by identifier only: Bob's row gets the new explanation, his
  quiz is deleted and three new ones are inserted, and the response carries Bob's row,
  whereas an identifier that no snippet has gives a response without these columns.
\<close>

theorem cross_owner_result_write:
  "passes_gate demo_world (demo_request (Some ''s1'')) ''alice'' (demo_body (Some ''s1'')) \<and>
   map (\<lambda>r. (js_get (Obj r) ''owner'', js_get (Obj r) ''explanation'')) (snippets_tbl demo_store) =
     [(Str ''bob'', Str ''old'')] \<and>
   map (\<lambda>r. (js_get (Obj r) ''owner'', js_get (Obj r) ''explanation''))
       (snippets_tbl (snd (serve demo_world demo_store (demo_request (Some ''s1''))))) =
     [(Str ''bob'', Str (explanation (mock_response ''python'')))] \<and>
   map (\<lambda>r. (js_get (Obj r) ''id'', js_get (Obj r) ''snippet_id'')) (quizzes_tbl demo_store) =
     [(Str ''q1'', Str ''s1'')] \<and>
   map (\<lambda>r. (js_get (Obj r) ''id'', js_get (Obj r) ''snippet_id''))
       (quizzes_tbl (snd (serve demo_world demo_store (demo_request (Some ''s1''))))) =
     [(Str ''q2'', Str ''s1''), (Str ''q3'', Str ''s1''), (Str ''q4'', Str ''s1'')] \<and>
   calls (snd (serve demo_world demo_store (demo_request (Some ''s1'')))) =
     [SnippetUpdate, ResultWrite, QuizDelete, QuizInsert] \<and>
   map (js_get (response_snippet (fst (serve demo_world demo_store (demo_request (Some ''s1''))))))
       [''owner'', ''title'', ''code''] = [Str ''bob'', Str ''payroll'', Str ''select 1''] \<and>
   map (js_get (response_snippet (fst (serve demo_world demo_store (demo_request (Some ''s0''))))))
       [''owner'', ''title'', ''code''] = [Undefined, Undefined, Undefined]"
proof -
  have "map (\<lambda>r. (js_get (Obj r) ''owner'', js_get (Obj r) ''explanation''))
       (snippets_tbl (snd (serve demo_world demo_store (demo_request (Some ''s1''))))) =
     [(Str ''bob'', Str (explanation (mock_response ''python'')))]"
    by code_simp
  moreover have "map (\<lambda>r. (js_get (Obj r) ''id'', js_get (Obj r) ''snippet_id''))
       (quizzes_tbl (snd (serve demo_world demo_store (demo_request (Some ''s1''))))) =
     [(Str ''q2'', Str ''s1''), (Str ''q3'', Str ''s1''), (Str ''q4'', Str ''s1'')]"
    by code_simp
  moreover have "calls (snd (serve demo_world demo_store (demo_request (Some ''s1'')))) =
     [SnippetUpdate, ResultWrite, QuizDelete, QuizInsert]"
    by code_simp
  moreover have "map (js_get (response_snippet (fst (serve demo_world demo_store (demo_request (Some ''s1''))))))
       [''owner'', ''title'', ''code''] = [Str ''bob'', Str ''payroll'', Str ''select 1'']"
    by code_simp
  moreover have "map (js_get (response_snippet (fst (serve demo_world demo_store (demo_request (Some ''s0''))))))
       [''owner'', ''title'', ''code''] = [Undefined, Undefined, Undefined]"
    by code_simp
  moreover have "map (\<lambda>r. (js_get (Obj r) ''owner'', js_get (Obj r) ''explanation'')) (snippets_tbl demo_store) =
     [(Str ''bob'', Str ''old'')]"
    "map (\<lambda>r. (js_get (Obj r) ''id'', js_get (Obj r) ''snippet_id'')) (quizzes_tbl demo_store) =
     [(Str ''q1'', Str ''s1'')]"
    by (simp_all add: demo_store_def bobs_snippet_def bobs_quiz_def js_get_def)
  ultimately show ?thesis
    using demo_gate [of "Some ''s1''"] by blast
qed

subsection \<open>The heuristic generator\<close>

text \<open>
  Claim C6. For every code, language and reading level the heuristic generator returns
  three quizzes, and each quiz has four pairwise distinct choices, its answer among them.
\<close>

theorem heuristic_quizzes_wellformed:
  "length (quizzes (generateFallbackResponse code language readingLevel)) = 3 \<and>
   (\<forall>q \<in> set (quizzes (generateFallbackResponse code language readingLevel)).
      answer q \<in> set (choices q) \<and> length (choices q) = 4 \<and> distinct (choices q))"
  by (simp add: generateFallbackResponse_def fallback_quizzes_def)

text \<open>
  The second quiz for a code with a loop.
\<close>

theorem heuristic_quizzes_wellformed_witness:
  "quizzes (generateFallbackResponse ''for i in range(10): print(i)'' ''python'' ''12'') ! 1
     \<in> set (quizzes (generateFallbackResponse ''for i in range(10): print(i)'' ''python'' ''12'')) \<and>
   answer (quizzes (generateFallbackResponse ''for i in range(10): print(i)'' ''python'' ''12'') ! 1)
     = ''Loops for repetition'' \<and>
   answer (quizzes (generateFallbackResponse ''for i in range(10): print(i)'' ''python'' ''12'') ! 1)
     \<in> set (choices
          (quizzes (generateFallbackResponse ''for i in range(10): print(i)'' ''python'' ''12'') ! 1))"
proof -
  let ?qs = "quizzes (generateFallbackResponse ''for i in range(10): print(i)'' ''python'' ''12'')"
  have h: "hasLoops ''for i in range(10): print(i)''" by code_simp
  note t = heuristic_quizzes_wellformed [of "''for i in range(10): print(i)''" "''python''" "''12''"]
  from t have m: "?qs ! 1 \<in> set ?qs" by simp
  with t have a: "answer (?qs ! 1) \<in> set (choices (?qs ! 1))" by blast
  from h have "answer (?qs ! 1) = ''Loops for repetition''"
    by (simp add: generateFallbackResponse_def fallback_quizzes_def)
  with m a show ?thesis by blast
qed

text \<open>
  Claim C7. Two inputs with the same loop and conditional signals get the same diagram,
  whatever their languages, reading levels and function signals; the diagram is the
  template selected by the two signals, loop with branch, loop, branch or straight line,
  and the four templates are different strings.
\<close>

theorem diagram_depends_on_signals:
  "(hasLoops c1 = hasLoops c2 \<and> hasConditionals c1 = hasConditionals c2 \<longrightarrow>
      mermaid (generateFallbackResponse c1 l1 r1) = mermaid (generateFallbackResponse c2 l2 r2))
   \<and> mermaid (generateFallbackResponse c1 l1 r1) =
       render_template (select_template (hasLoops c1) (hasConditionals c1))
   \<and> select_template True True = LoopWithBranch \<and> select_template True False = Loop
   \<and> select_template False True = Branch \<and> select_template False False = StraightLine
   \<and> inj render_template"
  by (auto simp add: mermaid_template select_template_def inj_def dest: render_template_inj)

text \<open>
  Two codes with a loop and no conditional, one of them with a function.
\<close>

theorem diagram_depends_on_signals_witness:
  "hasLoops ''for x'' = hasLoops ''while (1) { function f() {} }'' \<and>
   hasConditionals ''for x'' = hasConditionals ''while (1) { function f() {} }'' \<and>
   hasFunctions ''for x'' \<noteq> hasFunctions ''while (1) { function f() {} }'' \<and>
   mermaid (generateFallbackResponse ''for x'' ''python'' ''12'') =
   mermaid (generateFallbackResponse ''while (1) { function f() {} }'' ''javascript'' ''pro'') \<and>
   mermaid (generateFallbackResponse ''for x'' ''python'' ''12'') = render_template Loop"
proof -
  have a: "hasLoops ''for x''" "hasLoops ''while (1) { function f() {} }''"
     "\<not> hasConditionals ''for x''" "\<not> hasConditionals ''while (1) { function f() {} }''"
     "\<not> hasFunctions ''for x''" "hasFunctions ''while (1) { function f() {} }''"
    by code_simp+
  note t = diagram_depends_on_signals [of "''for x''" "''while (1) { function f() {} }''"
      "''python''" "''12''" "''javascript''" "''pro''"]
  from t a have e: "mermaid (generateFallbackResponse ''for x'' ''python'' ''12'') =
    mermaid (generateFallbackResponse ''while (1) { function f() {} }'' ''javascript'' ''pro'')"
    by blast
  from t have "mermaid (generateFallbackResponse ''for x'' ''python'' ''12'') =
      render_template (select_template (hasLoops ''for x'') (hasConditionals ''for x''))"
    by blast
  with a have r: "mermaid (generateFallbackResponse ''for x'' ''python'' ''12'') = render_template Loop"
    by (simp add: select_template_def)
  from a e r show ?thesis by blast
qed

text \<open>
  Claim C8, as the code has it. The explanation is the base sentence of the register,
  then the loops clause, the conditionals clause and the functions clause, each present
  when its signal is true; the teen-friendly and the technical-professional registers
  have a functions clause, the child-friendly register has none.
\<close>

theorem explanation_extension_clauses:
  "explanation (generateFallbackResponse code language readingLevel) =
     extended_sentence (register_of readingLevel) language
       (hasLoops code) (hasConditionals code) (hasFunctions code) \<and>
   functions_clause ChildFriendly = None \<and>
   functions_clause TeenFriendly \<noteq> None \<and>
   functions_clause TechnicalProfessional \<noteq> None"
  by (simp add: generateFallbackResponse_def fallback_explanation_def extended_sentence_def
        register_of_def clause_if_def)

text \<open>
  A code with a function and nothing else, in the child-friendly and in the
  technical-professional register.
\<close>

theorem explanation_extension_clauses_witness:
  "explanation (generateFallbackResponse ''def f(): pass'' ''python'' ''12'') =
     base_sentence ChildFriendly ''python'' \<and>
   explanation (generateFallbackResponse ''def f(): pass'' ''python'' ''pro'') =
     base_sentence TechnicalProfessional ''python'' @
       '' Modular function design promotes code reusability and separation of concerns.''"
proof -
  have a: "\<not> hasLoops ''def f(): pass''" "\<not> hasConditionals ''def f(): pass''"
    "hasFunctions ''def f(): pass''"
    by code_simp+
  from explanation_extension_clauses [of "''def f(): pass''" "''python''" "''12''"] a
  have x: "explanation (generateFallbackResponse ''def f(): pass'' ''python'' ''12'') =
     base_sentence ChildFriendly ''python''"
    by (simp add: extended_sentence_def register_of_def clause_if_def)
  from explanation_extension_clauses [of "''def f(): pass''" "''python''" "''pro''"] a
  have y: "explanation (generateFallbackResponse ''def f(): pass'' ''python'' ''pro'') =
     base_sentence TechnicalProfessional ''python'' @
       '' Modular function design promotes code reusability and separation of concerns.''"
    by (simp add: extended_sentence_def register_of_def clause_if_def)
  from x y show ?thesis by blast
qed

text \<open>
  Claim C8 as stated fails in the teen-friendly register: for a code with a function the
  explanation ends with that register's functions clause.
\<close>

theorem teen_register_functions_clause_counterexample:
  "register_of ''15'' = TeenFriendly \<and> hasFunctions ''def f(): pass'' \<and>
   explanation (generateFallbackResponse ''def f(): pass'' ''python'' ''15'') =
     ''This python code demonstrates fundamental programming concepts. It processes input data through a series of logical operations to produce a desired output. Functions help organize the code into reusable blocks.''"
proof -
  have a: "\<not> hasLoops ''def f(): pass''" "\<not> hasConditionals ''def f(): pass''"
    "hasFunctions ''def f(): pass''"
    by code_simp+
  then show ?thesis
    by (simp add: generateFallbackResponse_def fallback_explanation_def register_of_def)
qed

subsection \<open>No model credential\<close>

text \<open>
  Claim C9. Without a model credential \<^verbatim>\<open>callLLM\<close> returns the mock bundle, which
  mentions ``variables to store data and control structures'' and is different from the
  heuristic bundle for every code, language and reading level.
\<close>

theorem unconfigured_returns_mock:
  assumes "\<not> truthy_str (OPENAI_API_KEY w)"
  shows "callLLM w code language readingLevel = encode_bundle (mock_response language) \<and>
         callLLM w code language readingLevel \<noteq>
           encode_bundle (generateFallbackResponse code language readingLevel) \<and>
         mock_response language \<noteq> generateFallbackResponse code language readingLevel \<and>
         sublist ''variables to store data and control structures''
           (explanation (mock_response language))"
proof -
  have c: "callLLM w code language readingLevel = encode_bundle (mock_response language)"
    using assms by (simp add: callLLM_def)
  have d: "encode_bundle (mock_response language) \<noteq>
      encode_bundle (generateFallbackResponse code language readingLevel)"
    by (rule bundles_differ)
  then have m: "mock_response language \<noteq> generateFallbackResponse code language readingLevel"
    by auto
  have "explanation (mock_response language) =
      (''This '' @ language @ '' code demonstrates key programming concepts. It uses '') @
      ''variables to store data and control structures'' @
      '' to manage program flow. The logic is structured to handle the main use case efficiently.''"
    by (simp add: mock_response_def)
  then have s: "sublist ''variables to store data and control structures''
      (explanation (mock_response language))"
    by (simp only: sublist_appendI)
  from c d m s show ?thesis by simp
qed

text \<open>
  The scenario of the specification: Python, \<^verbatim>\<open>for i in range(10): print(i)\<close>,
  reading level 12.
\<close>

theorem unconfigured_returns_mock_witness:
  "\<not> truthy_str (OPENAI_API_KEY demo_world) \<and>
   js_get (callLLM demo_world ''for i in range(10): print(i)'' ''python'' ''12'') ''explanation'' =
     Str ''This python code demonstrates key programming concepts. It uses variables to store data and control structures to manage program flow. The logic is structured to handle the main use case efficiently.'' \<and>
   sublist ''variables to store data and control structures''
     (explanation (mock_response ''python'')) \<and>
   callLLM demo_world ''for i in range(10): print(i)'' ''python'' ''12'' \<noteq>
     encode_bundle (generateFallbackResponse ''for i in range(10): print(i)'' ''python'' ''12'')"
proof -
  have k: "\<not> truthy_str (OPENAI_API_KEY demo_world)"
    by (simp add: demo_world_def truthy_str_def)
  note t = unconfigured_returns_mock [OF k, of "''for i in range(10): print(i)''" "''python''" "''12''"]
  from t have "js_get (callLLM demo_world ''for i in range(10): print(i)'' ''python'' ''12'')
      ''explanation'' = Str (explanation (mock_response ''python''))"
    by (simp add: encode_bundle_def js_get_def)
  then have e: "js_get (callLLM demo_world ''for i in range(10): print(i)'' ''python'' ''12'') ''explanation'' =
     Str ''This python code demonstrates key programming concepts. It uses variables to store data and control structures to manage program flow. The logic is structured to handle the main use case efficiently.''"
    by (simp add: mock_response_def)
  from k t e show ?thesis by blast
qed

subsection \<open>The status reported to the caller\<close>

text \<open>
  Claim C10. Every response of the handler with status 200 and a body reports the
  snippet's status as ready.
\<close>

theorem ok_response_reports_ready:
  "resp_status (fst (serve w st rq)) = 200 \<and> resp_body (fst (serve w st rq)) \<noteq> None \<longrightarrow>
     snippet_status (fst (serve w st rq)) = Str ''ready''"
proof (cases "http_method rq = ''OPTIONS''")
  case True
  then show ?thesis by (simp add: serve_def)
next
  case False
  show ?thesis
  proof (cases "serve_try w st rq")
    case (Pair res st1)
    show ?thesis
    proof (cases res)
      case (Inl e)
      with Pair False have "fst (serve w st rq) = final_fallback e"
        by (simp add: serve_def)
      then show ?thesis
        using final_fallback_content [of e] by (simp add: ready_response_def)
    next
      case (Inr r)
      with Pair False have "fst (serve w st rq) = r"
        by (simp add: serve_def)
      moreover from Inr Pair have
        "ready_response r \<or> resp_status r = 400 \<or> resp_status r = 401 \<or> resp_status r = 500"
        by (auto dest: serve_try_cases)
      ultimately show ?thesis
        by (auto simp add: ready_response_def)
    qed
  qed
qed

text \<open>
  A result write that reports an error: the response says ready while the row that was
  inserted still says pending.
\<close>

theorem ok_response_reports_ready_witness:
  "resp_status (fst (serve (demo_world\<lparr>result_write := Reports\<rparr>) demo_store (demo_request None))) = 200 \<and>
   resp_body (fst (serve (demo_world\<lparr>result_write := Reports\<rparr>) demo_store (demo_request None))) \<noteq> None \<and>
   snippet_status (fst (serve (demo_world\<lparr>result_write := Reports\<rparr>) demo_store (demo_request None))) =
     Str ''ready'' \<and>
   map (\<lambda>r. (js_get (Obj r) ''id'', js_get (Obj r) ''status''))
     (snippets_tbl (snd (serve (demo_world\<lparr>result_write := Reports\<rparr>) demo_store (demo_request None)))) =
     [(Str ''s1'', Str ''ready''), (Str ''s2'', Str ''pending'')]"
proof -
  let ?r = "serve (demo_world\<lparr>result_write := Reports\<rparr>) demo_store (demo_request None)"
  have a: "resp_status (fst ?r) = 200" by code_simp
  have b: "resp_body (fst ?r) \<noteq> None" by code_simp
  have c: "map (\<lambda>r. (js_get (Obj r) ''id'', js_get (Obj r) ''status'')) (snippets_tbl (snd ?r)) =
     [(Str ''s1'', Str ''ready''), (Str ''s2'', Str ''pending'')]"
    by code_simp
  from ok_response_reports_ready [of "demo_world\<lparr>result_write := Reports\<rparr>" demo_store "demo_request None"] a b
  have "snippet_status (fst ?r) = Str ''ready''" by blast
  with a b c show ?thesis by blast
qed

end
